theory Spec2Isabelle
  imports Complex_Main "HOL-Library.Sublist" "HOL-Library.Multiset"
begin

section \<open>Strings and numbers of the Python source\<close>

text \<open>
  Python strings are modelled as \<^typ>\<open>string\<close>; the names handled by MealMind are ASCII
  ingredient, allergen and condition names. Python's unbounded integers are \<^typ>\<open>int\<close>.

  A Python float is an IEEE 754 binary64 number. It is modelled by the rational it denotes,
  and every float operation rounds its exact result to the nearest binary64 number, ties to
  the even significand (\<open>fl\<close> below). Overflow, subnormal numbers, infinities and NaN are
  outside this development: the quantities handled are calories, grams and servings.
\<close>

text \<open>
  The exceptions that leave a function: \<open>ZeroDivisionError\<close> of the division by the
  servings, \<open>ValueError\<close> of an incomplete profile, and \<open>SourceError\<close> for whatever a
  call of the recipe source raises.
\<close>

datatype error = ZeroDivisionError | ValueError | SourceError

definition lower_char :: "char \<Rightarrow> char" where
  "lower_char c =
     (let n = (of_char c :: nat) in if 65 \<le> n \<and> n \<le> 90 then char_of (n + 32) else c)"

definition lower :: "string \<Rightarrow> string" where
  "lower s = map lower_char s"

text \<open>\<open>sub in s\<close> on Python strings: \<open>sub\<close> occurs as a contiguous slice of \<open>s\<close>.\<close>

fun str_in :: "string \<Rightarrow> string \<Rightarrow> bool" where
  "str_in sub [] = (sub = [])"
| "str_in sub (c # s) = (prefix sub (c # s) \<or> str_in sub s)"

text \<open>\<open>sep.join(xs)\<close>.\<close>

fun join :: "string \<Rightarrow> string list \<Rightarrow> string" where
  "join sep [] = []"
| "join sep [x] = x"
| "join sep (x # y # ys) = x @ sep @ join sep (y # ys)"

text \<open>\<open>int(x)\<close> on a float truncates towards zero; \<open>str(i)\<close> prints an integer in decimal.\<close>

definition py_int :: "rat \<Rightarrow> int" where
  "py_int x = (if 0 \<le> x then \<lfloor>x\<rfloor> else \<lceil>x\<rceil>)"

fun str_nat :: "nat \<Rightarrow> string" where
  "str_nat n =
     (if n < 10 then [char_of (48 + n)] else str_nat (n div 10) @ [char_of (48 + n mod 10)])"

declare str_nat.simps [simp del]

definition str_int :: "int \<Rightarrow> string" where
  "str_int i = (if i < 0 then CHR ''-'' # str_nat (nat (- i)) else str_nat (nat i))"

text \<open>
  For a positive rational \<open>x\<close>, the exponent \<open>e\<close> with \<open>2 ^ e \<le> x < 2 ^ (e + 1)\<close>: \<open>x\<close> is
  halved or doubled until it lies between 1 and 2.
\<close>

function floor_log2 :: "rat \<Rightarrow> int" where
  "floor_log2 x =
     (if x \<le> 0 then 0
      else if 2 \<le> x then floor_log2 (x / 2) + 1
      else if x < 1 then floor_log2 (x * 2) - 1
      else 0)"
  by pat_completeness auto
termination
proof (relation "measure (\<lambda>x. 2 * nat \<lceil>1 / x\<rceil> + nat \<lceil>x\<rceil>)", goal_cases)
  case 1
  show ?case by simp
next
  case (2 x)
  then have x: "2 \<le> x" by simp
  have h: "\<lceil>y / 2\<rceil> < \<lceil>y\<rceil>" if "1 < y" for y :: rat
  proof -
    from that have "1 < \<lceil>y\<rceil>" by (simp add: less_ceiling_iff)
    then have "2 \<le> \<lceil>y\<rceil>" by simp
    then have "(2::rat) \<le> of_int \<lceil>y\<rceil>" by linarith
    moreover have "y \<le> of_int \<lceil>y\<rceil>" by (rule le_of_int_ceiling)
    ultimately have "y / 2 \<le> of_int \<lceil>y\<rceil> - 1" by linarith
    then show ?thesis by (simp add: ceiling_less_iff)
  qed
  from x have "1 / x \<le> 1" "0 < 1 / x" by (simp_all add: field_simps)
  then have a: "\<lceil>1 / x\<rceil> = 1" by (simp add: ceiling_eq_iff)
  from x have "1 / (x / 2) \<le> 1" "0 < 1 / (x / 2)" by (simp_all add: field_simps)
  then have b: "\<lceil>1 / (x / 2)\<rceil> = 1" by (simp add: ceiling_eq_iff)
  from x have "\<lceil>x / 2\<rceil> < \<lceil>x\<rceil>" by (intro h) simp
  moreover from x have "0 < \<lceil>x / 2\<rceil>" by (simp add: less_ceiling_iff)
  ultimately show ?case using a b by simp
next
  case (3 x)
  then have x: "0 < x" "x < 1" by simp_all
  have h: "\<lceil>y / 2\<rceil> < \<lceil>y\<rceil>" if "1 < y" for y :: rat
  proof -
    from that have "1 < \<lceil>y\<rceil>" by (simp add: less_ceiling_iff)
    then have "2 \<le> \<lceil>y\<rceil>" by simp
    then have "(2::rat) \<le> of_int \<lceil>y\<rceil>" by linarith
    moreover have "y \<le> of_int \<lceil>y\<rceil>" by (rule le_of_int_ceiling)
    ultimately have "y / 2 \<le> of_int \<lceil>y\<rceil> - 1" by linarith
    then show ?thesis by (simp add: ceiling_less_iff)
  qed
  from x have t: "1 < 1 / x" by (simp add: field_simps)
  have e: "1 / (x * 2) = (1 / x) / 2" by simp
  from t have "\<lceil>(1 / x) / 2\<rceil> < \<lceil>1 / x\<rceil>" by (rule h)
  then have 1: "\<lceil>1 / (x * 2)\<rceil> < \<lceil>1 / x\<rceil>" by (simp only: e)
  from x have 2: "0 < \<lceil>1 / (x * 2)\<rceil>" by (simp add: less_ceiling_iff)
  from x have 3: "\<lceil>x\<rceil> = 1" by (simp add: ceiling_eq_iff)
  from x have 4: "\<lceil>x * 2\<rceil> \<le> 2" by (simp add: ceiling_le_iff)
  from x have 5: "0 < \<lceil>x * 2\<rceil>" by (simp add: less_ceiling_iff)
  have "2 * nat \<lceil>1 / (x * 2)\<rceil> + nat \<lceil>x * 2\<rceil> < 2 * nat \<lceil>1 / x\<rceil> + nat \<lceil>x\<rceil>"
    using 1 2 3 4 5 by linarith
  then show ?case by simp
qed

declare floor_log2.simps [simp del]

text \<open>The powers of 2 with an integer exponent.\<close>

definition pow2 :: "int \<Rightarrow> rat" where
  "pow2 e = (if 0 \<le> e then 2 ^ nat e else 1 / 2 ^ nat (- e))"

text \<open>Rounding to the nearest integer, a tie to the even one.\<close>

definition round_half_even :: "rat \<Rightarrow> int" where
  "round_half_even y =
     (let f = \<lfloor>y\<rfloor>; d = y - of_int f
      in if d < 1 / 2 then f else if 1 / 2 < d then f + 1
         else if even f then f else f + 1)"

text \<open>
  The binary64 number nearest to \<open>x\<close>: 53 significant bits, so the unit in the last place
  of a number in the binade \<open>2 ^ e\<close> is \<open>2 ^ (e - 52)\<close>.
\<close>

definition fl :: "rat \<Rightarrow> rat" where
  "fl x =
     (if x = 0 then 0
      else let u = pow2 (floor_log2 \<bar>x\<bar> - 52)
           in of_int (round_half_even (x / u)) * u)"

text \<open>Float addition, subtraction, multiplication and division.\<close>

definition fadd :: "rat \<Rightarrow> rat \<Rightarrow> rat" where
  "fadd a b = fl (a + b)"

definition fsub :: "rat \<Rightarrow> rat \<Rightarrow> rat" where
  "fsub a b = fl (a - b)"

definition fmul :: "rat \<Rightarrow> rat \<Rightarrow> rat" where
  "fmul a b = fl (a * b)"

definition fdiv :: "rat \<Rightarrow> rat \<Rightarrow> rat" where
  "fdiv a b = fl (a / b)"

text \<open>
  \<open>round(x, 2)\<close> on a float: the exact value of \<open>x\<close> is rounded to 2 decimals, a tie to
  the even digit, and the decimal result is converted back to a float.
\<close>

definition py_round2 :: "rat \<Rightarrow> rat" where
  "py_round2 x = fl (of_int (round_half_even (x * 100)) / 100)"

text \<open>The float sum of a list, from the left, starting at \<open>0.0\<close>.\<close>

definition float_sum :: "rat list \<Rightarrow> rat" where
  "float_sum xs = foldl fadd 0 xs"

section \<open>Data model\<close>

text \<open>An ingredient line \<open>{name, amount, unit}\<close>; \<open>ingredient.get("unit")\<close> may be absent.\<close>

record ingredient =
  ing_name :: string
  ing_amount :: rat
  ing_unit :: "string option"

text \<open>The seven nutrient totals, also the fields read from a \<open>NutritionInfo\<close>.\<close>

record nutrition =
  calories :: rat
  protein_g :: rat
  carbs_g :: rat
  fat_g :: rat
  fiber_g :: rat
  sugar_g :: rat
  sodium_mg :: rat

text \<open>
  A recipe as the dictionary the validator and the optimizer read: a key read with
  \<open>.get(key, default)\<close> is an option, \<open>None\<close> standing for an absent key.
\<close>

record recipe_dict =
  d_name :: "string option"
  d_meal_type :: "string option"
  d_cuisine :: "string option"
  d_cooking_time_minutes :: "int option"
  d_servings :: "int option"
  d_ingredients :: "ingredient list"
  d_instructions :: "string list"
  d_nutritional_info :: "nutrition option"
  d_tags :: "string list"
  d_suitable_for :: "string list"
  d_nutrition_validated :: bool

text \<open>\<open>FamilyMember\<close> of the profile store; the planning context carries the same fields.\<close>

record family_member =
  m_name :: string
  m_age :: "int option"
  m_health_conditions :: "string list"
  m_allergies :: "string list"
  m_dietary_restrictions :: "string list"
  m_preferences :: "string list"
  m_dislikes :: "string list"
  m_calorie_target :: "int option"

record planning_context =
  ctx_household_id :: string
  ctx_members :: "family_member list"
  ctx_cooking_time_max :: int

record guidelines =
  g_avoid :: "string list"
  g_prefer :: "string list"

text \<open>
  The constraint dictionary read by the validator. A guideline entry may lack its
  \<open>avoid\<close> or \<open>prefer\<close> key only when the whole entry is absent, so the inner
  \<open>.get\<close> defaults are folded into the lookup of the entry.
\<close>

record constraints =
  c_allergies :: "string list"
  c_dietary_restrictions :: "string list"
  c_health_conditions :: "string list"
  c_dislikes :: "string list"
  c_health_guidelines :: "(string \<times> guidelines) list"

record NutritionValidationResult =
  is_compliant :: bool
  violations :: "string list"
  warnings :: "string list"
  nutritional_summary :: nutrition
  recommendations :: "string list"

section \<open>Nutrition compliance agent\<close>

text \<open>
  The nutrient lookup is an external service (USDA API, cache, fallback table); it is a
  parameter, \<open>None\<close> standing for a lookup that raises.
\<close>

type_synonym nutrition_tool = "string \<Rightarrow> rat \<Rightarrow> nutrition option"

definition zero_nutrition :: nutrition where
  "zero_nutrition = \<lparr>calories = 0, protein_g = 0, carbs_g = 0, fat_g = 0, fiber_g = 0,
     sugar_g = 0, sodium_mg = 0\<rparr>"

definition add_nutrition :: "nutrition \<Rightarrow> nutrition \<Rightarrow> nutrition" where
  "add_nutrition t n = \<lparr>calories = fadd (calories t) (calories n),
     protein_g = fadd (protein_g t) (protein_g n), carbs_g = fadd (carbs_g t) (carbs_g n),
     fat_g = fadd (fat_g t) (fat_g n), fiber_g = fadd (fiber_g t) (fiber_g n),
     sugar_g = fadd (sugar_g t) (sugar_g n), sodium_mg = fadd (sodium_mg t) (sodium_mg n)\<rparr>"

definition map_nutrition :: "(rat \<Rightarrow> rat) \<Rightarrow> nutrition \<Rightarrow> nutrition" where
  "map_nutrition f t = \<lparr>calories = f (calories t), protein_g = f (protein_g t),
     carbs_g = f (carbs_g t), fat_g = f (fat_g t), fiber_g = f (fiber_g t),
     sugar_g = f (sugar_g t), sodium_mg = f (sodium_mg t)\<rparr>"

text \<open>
  The loop of \<open>calculate_recipe_nutrition\<close> over the ingredient lines: a \<open>"pieces"\<close>
  line is skipped by \<open>continue\<close>, a lookup that raises is caught and the line skipped, every
  other line (whatever its unit) adds the lookup of its name and amount to the totals.
\<close>

fun total_nutrition :: "nutrition_tool \<Rightarrow> ingredient list \<Rightarrow> nutrition \<Rightarrow> nutrition" where
  "total_nutrition tool [] totals = totals"
| "total_nutrition tool (i # rest) totals =
     (if ing_unit i = Some ''pieces'' then total_nutrition tool rest totals
      else case tool (ing_name i) (ing_amount i) of
             None \<Rightarrow> total_nutrition tool rest totals
           | Some n \<Rightarrow> total_nutrition tool rest (add_nutrition totals n))"

text \<open>\<open>recipe.get("servings", 4)\<close>.\<close>

definition recipe_servings :: "recipe_dict \<Rightarrow> int" where
  "recipe_servings recipe = (case d_servings recipe of None \<Rightarrow> 4 | Some s \<Rightarrow> s)"

text \<open>
  Dividing the float totals by \<open>servings = 0\<close> raises \<open>ZeroDivisionError\<close>; otherwise the
  integer \<open>servings\<close> is converted to a float and each total is divided by it and rounded.
\<close>

definition calculate_recipe_nutrition :: "nutrition_tool \<Rightarrow> recipe_dict \<Rightarrow> error + nutrition" where
  "calculate_recipe_nutrition tool recipe =
     (let totals = total_nutrition tool (d_ingredients recipe) zero_nutrition;
          servings = recipe_servings recipe
      in if servings = 0 then Inl ZeroDivisionError
         else Inr (map_nutrition (\<lambda>v. py_round2 (fdiv v (fl (of_int servings)))) totals))"

definition check_allergens :: "recipe_dict \<Rightarrow> string list \<Rightarrow> string list" where
  "check_allergens recipe allergies =
     concat (map (\<lambda>i.
       concat (map (\<lambda>allergen.
         if str_in (lower allergen) (lower (ing_name i))
         then [allergen @ '' (found in '' @ ing_name i @ '')''] else [])
       allergies))
     (d_ingredients recipe))"

definition restriction_patterns :: "(string \<times> string list) list" where
  "restriction_patterns =
     [(''vegan'', [''meat'', ''chicken'', ''beef'', ''pork'', ''fish'', ''egg'', ''milk'',
                   ''cheese'', ''butter'', ''cream'', ''yogurt'']),
      (''vegetarian'', [''meat'', ''chicken'', ''beef'', ''pork'', ''fish'', ''salmon'']),
      (''gluten-free'', [''wheat'', ''bread'', ''pasta'', ''flour'', ''barley'', ''rye'']),
      (''dairy-free'', [''milk'', ''cheese'', ''butter'', ''cream'', ''yogurt'']),
      (''keto'', [''rice'', ''pasta'', ''bread'', ''potato'', ''sugar'']),
      (''low-carb'', [''rice'', ''pasta'', ''bread'', ''potato''])]"

text \<open>
  The innermost loop of \<open>check_dietary_restrictions\<close> stops at the first forbidden item
  found in the ingredient name (\<open>break\<close>), so each ingredient yields at most one violation
  per restriction.
\<close>

definition check_dietary_restrictions :: "recipe_dict \<Rightarrow> string list \<Rightarrow> string list" where
  "check_dietary_restrictions recipe restrictions =
     concat (map (\<lambda>restriction.
       case map_of restriction_patterns (lower restriction) of
         None \<Rightarrow> []
       | Some forbidden \<Rightarrow>
           concat (map (\<lambda>i.
             if list_ex (\<lambda>forbidden_item. str_in forbidden_item (lower (ing_name i))) forbidden
             then [restriction @ '' restriction violated: contains '' @ ing_name i] else [])
           (d_ingredients recipe)))
     restrictions)"

definition condition_guidelines :: "(string \<times> guidelines) list \<Rightarrow> string \<Rightarrow> guidelines" where
  "condition_guidelines health_guidelines condition =
     (case map_of health_guidelines (lower condition) of
        None \<Rightarrow> \<lparr>g_avoid = [], g_prefer = []\<rparr>
      | Some g \<Rightarrow> g)"

definition condition_violations :: "recipe_dict \<Rightarrow> string \<Rightarrow> guidelines \<Rightarrow> string list" where
  "condition_violations recipe condition g =
     concat (map (\<lambda>i.
       concat (map (\<lambda>avoid_item.
         if str_in (lower avoid_item) (lower (ing_name i))
         then [condition @ '': should avoid '' @ ing_name i] else [])
       (g_avoid g)))
     (d_ingredients recipe))"

definition condition_warnings :: "recipe_dict \<Rightarrow> string \<Rightarrow> guidelines \<Rightarrow> string list" where
  "condition_warnings recipe condition g =
     (let has_preferred =
            list_ex (\<lambda>i. list_ex (\<lambda>prefer_item. str_in (lower prefer_item) (lower (ing_name i)))
                       (g_prefer g))
              (d_ingredients recipe)
      in if \<not> has_preferred \<and> g_prefer g \<noteq> []
         then [condition @ '': consider adding '' @ join '', '' (take 3 (g_prefer g))] else [])"

definition check_health_conditions ::
  "recipe_dict \<Rightarrow> string list \<Rightarrow> (string \<times> guidelines) list \<Rightarrow> string list \<times> string list" where
  "check_health_conditions recipe health_conditions health_guidelines =
     (concat (map (\<lambda>condition.
        condition_violations recipe condition (condition_guidelines health_guidelines condition))
        health_conditions),
      concat (map (\<lambda>condition.
        condition_warnings recipe condition (condition_guidelines health_guidelines condition))
        health_conditions))"

text \<open>The float literals \<open>0.25\<close>, \<open>0.35\<close>, \<open>0.40\<close> and the default \<open>0.33\<close>.\<close>

definition meal_percentage :: "string \<Rightarrow> rat" where
  "meal_percentage meal_type =
     (if meal_type = ''breakfast'' then fl (25 / 100)
      else if meal_type = ''lunch'' then fl (35 / 100)
      else if meal_type = ''dinner'' then fl (40 / 100)
      else fl (33 / 100))"

text \<open>
  One pass of the member loop of \<open>check_calorie_targets\<close>. \<open>if target:\<close> is false for an
  absent target and for a target of 0. The integer target is converted to a float for the
  product with the meal share; the difference, the threshold \<open>expected_calories * 0.3\<close>
  and the printed amounts are floats too.
\<close>

definition member_calorie_warning :: "rat \<Rightarrow> string \<Rightarrow> family_member \<Rightarrow> string list" where
  "member_calorie_warning cals meal_type member =
     (case m_calorie_target member of
        None \<Rightarrow> []
      | Some target \<Rightarrow>
          if target = 0 then []
          else
            let expected_calories = fmul (fl (of_int target)) (meal_percentage meal_type);
                difference = \<bar>fsub cals expected_calories\<bar>
            in if fmul expected_calories (fl (3 / 10)) < difference
               then
                 (if expected_calories < cals
                  then [m_name member @ '': '' @ meal_type @ '' is ''
                          @ str_int (py_int (fsub cals expected_calories))
                          @ '' calories over target (''
                          @ str_int (py_int expected_calories) @ '' expected)'']
                  else [m_name member @ '': '' @ meal_type @ '' is ''
                          @ str_int (py_int (fsub expected_calories cals))
                          @ '' calories under target (''
                          @ str_int (py_int expected_calories) @ '' expected)''])
               else [])"

fun check_calorie_targets_loop ::
  "rat \<Rightarrow> string \<Rightarrow> family_member list \<Rightarrow> string list \<Rightarrow> string list" where
  "check_calorie_targets_loop cals meal_type [] ws = ws"
| "check_calorie_targets_loop cals meal_type (member # rest) ws =
     check_calorie_targets_loop cals meal_type rest
       (ws @ member_calorie_warning cals meal_type member)"

definition check_calorie_targets :: "nutrition \<Rightarrow> family_member list \<Rightarrow> string \<Rightarrow> string list" where
  "check_calorie_targets nutrition_per_serving members meal_type =
     check_calorie_targets_loop (calories nutrition_per_serving) meal_type members []"

text \<open>\<open>recipe.get("meal_type", "dinner")\<close>.\<close>

definition recipe_meal_type :: "recipe_dict \<Rightarrow> string" where
  "recipe_meal_type recipe = (case d_meal_type recipe of None \<Rightarrow> ''dinner'' | Some t \<Rightarrow> t)"

text \<open>
  \<open>validate_recipe\<close>: the nutrition is computed first (and may raise), then the violations
  are collected in the order allergens, dietary restrictions, health conditions; calorie
  targets and sodium only add warnings.
\<close>

definition validate_recipe ::
  "nutrition_tool \<Rightarrow> recipe_dict \<Rightarrow> planning_context \<Rightarrow> constraints
     \<Rightarrow> error + NutritionValidationResult" where
  "validate_recipe tool recipe ctx cs =
     (case calculate_recipe_nutrition tool recipe of
        Inl e \<Rightarrow> Inl e
      | Inr nutr \<Rightarrow>
          let allergen_violations =
                (if c_allergies cs \<noteq> []
                 then map (\<lambda>a. ''ALLERGEN ALERT: '' @ a) (check_allergens recipe (c_allergies cs))
                 else []);
              restriction_violations =
                (if c_dietary_restrictions cs \<noteq> []
                 then check_dietary_restrictions recipe (c_dietary_restrictions cs) else []);
              condition_result =
                (if c_health_conditions cs \<noteq> []
                 then check_health_conditions recipe (c_health_conditions cs)
                        (c_health_guidelines cs)
                 else ([], []));
              calorie_warnings =
                check_calorie_targets nutr (ctx_members ctx) (recipe_meal_type recipe);
              vs = allergen_violations @ restriction_violations @ fst condition_result;
              ws = snd condition_result @ calorie_warnings
                     @ (if 800 < sodium_mg nutr
                        then [''High sodium content - consider reducing salt''] else []);
              recs = (if protein_g nutr < 15
                      then [''Consider adding more protein sources''] else [])
                     @ (if fiber_g nutr < 5
                        then [''Consider adding more fiber-rich ingredients''] else [])
          in Inr \<lparr>is_compliant = (length vs = 0), violations = vs, warnings = ws,
                  nutritional_summary = nutr, recommendations = recs\<rparr>)"

text \<open>\<open>generate_feedback\<close>: the text handed back to the recipe generator.\<close>

definition generate_feedback :: "NutritionValidationResult \<Rightarrow> string" where
  "generate_feedback validation_result =
     (if is_compliant validation_result then ''Recipe is compliant with all requirements.''
      else join [CHR 0x0A]
        ((if violations validation_result \<noteq> []
          then ''CRITICAL ISSUES:'' # map (\<lambda>v. ''  - '' @ v) (violations validation_result)
          else [])
         @ (if warnings validation_result \<noteq> []
            then (CHR 0x0A # ''WARNINGS:'') # map (\<lambda>w. ''  - '' @ w) (warnings validation_result)
            else [])
         @ (if recommendations validation_result \<noteq> []
            then (CHR 0x0A # ''RECOMMENDATIONS:'')
                   # map (\<lambda>r. ''  - '' @ r) (recommendations validation_result)
            else [])))"

section \<open>Recipe generator, as seen by the orchestrator\<close>

text \<open>The pydantic model \<open>Recipe\<close> and its \<open>model_dump()\<close>, which sets every key.\<close>

record Recipe =
  r_name :: string
  r_meal_type :: string
  r_cuisine :: "string option"
  r_cooking_time_minutes :: int
  r_servings :: int
  r_ingredients :: "ingredient list"
  r_instructions :: "string list"
  r_nutritional_info :: "nutrition option"
  r_tags :: "string list"
  r_suitable_for :: "string list"

definition model_dump :: "Recipe \<Rightarrow> recipe_dict" where
  "model_dump r = \<lparr>d_name = Some (r_name r), d_meal_type = Some (r_meal_type r),
     d_cuisine = r_cuisine r, d_cooking_time_minutes = Some (r_cooking_time_minutes r),
     d_servings = Some (r_servings r), d_ingredients = r_ingredients r,
     d_instructions = r_instructions r, d_nutritional_info = r_nutritional_info r,
     d_tags = r_tags r, d_suitable_for = r_suitable_for r, d_nutrition_validated = False\<rparr>"

text \<open>
  One call of \<open>generate_recipe\<close>: the arguments that vary within a planning run (the
  planning context and the constraints are the same in every call of a run).
\<close>

record generate_call =
  call_meal_type :: string
  call_additional_requirements :: "string option"
  call_retry_count :: int

text \<open>
  The recipe source (Gemini, or the mock generator) is external: its reply to a call is
  given by a function of the number of calls made before it and of the call's arguments;
  \<open>Inl\<close> is a call that raises (the reply does not fit the \<open>Recipe\<close> model).
\<close>

type_synonym recipe_source = "nat \<Rightarrow> generate_call \<Rightarrow> error + Recipe"

text \<open>\<open>regenerate_recipe\<close> is one more \<open>generate_recipe\<close> call, with \<open>retry_count=1\<close>.\<close>

definition regenerate_recipe :: "Recipe \<Rightarrow> string \<Rightarrow> generate_call" where
  "regenerate_recipe original_recipe feedback =
     \<lparr>call_meal_type = r_meal_type original_recipe,
      call_additional_requirements =
        Some ([CHR 0x0A] @ ''Previous recipe '' @ [CHR 0x22] @ r_name original_recipe
              @ [CHR 0x22] @ '' had issues:'' @ [CHR 0x0A] @ feedback @ [CHR 0x0A, CHR 0x0A]
              @ ''Please generate a NEW recipe that addresses these issues.'' @ [CHR 0x0A]),
      call_retry_count = 1\<rparr>"

section \<open>Orchestrator\<close>

text \<open>
  The body of \<open>_generate_validated_recipe\<close>, one equation per pass of
  \<open>for attempt in range(max_retries)\<close>. The list of calls made to the recipe source so far
  is threaded through. A pass generates a recipe, validates it and returns it when it is
  compliant; otherwise, unless this is the last attempt, it calls \<open>regenerate_recipe\<close>,
  whose result is assigned to \<open>recipe\<close> and overwritten at the top of the next pass.
  An exception of the source or of the validator leaves the loop (\<open>Inl\<close>).
\<close>

fun attempts_loop ::
  "recipe_source \<Rightarrow> nutrition_tool \<Rightarrow> string \<Rightarrow> planning_context \<Rightarrow> constraints \<Rightarrow> int
     \<Rightarrow> int list \<Rightarrow> generate_call list \<Rightarrow> error + (recipe_dict option \<times> generate_call list)" where
  "attempts_loop src tool meal_type ctx cs max_retries [] calls = Inr (None, calls)"
| "attempts_loop src tool meal_type ctx cs max_retries (attempt # rest) calls =
     (let call = \<lparr>call_meal_type = meal_type, call_additional_requirements = None,
                  call_retry_count = attempt\<rparr>
      in case src (length calls) call of
           Inl e \<Rightarrow> Inl e
         | Inr recipe \<Rightarrow>
             (case validate_recipe tool (model_dump recipe) ctx cs of
                Inl e \<Rightarrow> Inl e
              | Inr validation \<Rightarrow>
                  if is_compliant validation
                  then Inr (Some ((model_dump recipe)
                              \<lparr>d_nutritional_info := Some (nutritional_summary validation),
                               d_nutrition_validated := True\<rparr>),
                            calls @ [call])
                  else if attempt < max_retries - 1
                  then
                    (let again = regenerate_recipe recipe (generate_feedback validation)
                     in case src (length (calls @ [call])) again of
                          Inl e \<Rightarrow> Inl e
                        | Inr regenerated \<Rightarrow>
                            attempts_loop src tool meal_type ctx cs max_retries rest
                              (calls @ [call, again]))
                  else attempts_loop src tool meal_type ctx cs max_retries rest
                         (calls @ [call])))"

definition generate_validated_recipe ::
  "recipe_source \<Rightarrow> nutrition_tool \<Rightarrow> string \<Rightarrow> planning_context \<Rightarrow> constraints \<Rightarrow> int
     \<Rightarrow> generate_call list \<Rightarrow> error + (recipe_dict option \<times> generate_call list)" where
  "generate_validated_recipe src tool meal_type ctx cs max_retries calls =
     attempts_loop src tool meal_type ctx cs max_retries [0..max_retries - 1] calls"

text \<open>
  The weekly plan is a list of \<open>{"day": n, "meals": [...]}\<close>. Besides the calls to the
  source, the run writes one \<open>recipe_generation_failed\<close> warning (day, meal type) to the
  log for each slot that got no recipe; the log is not part of the returned plan.
\<close>

record day_meals =
  day :: int
  meals :: "recipe_dict list"

record run_trace =
  source_calls :: "generate_call list"
  failure_log :: "(int \<times> string) list"

fun meal_types_loop ::
  "recipe_source \<Rightarrow> nutrition_tool \<Rightarrow> planning_context \<Rightarrow> constraints \<Rightarrow> int \<Rightarrow> int
     \<Rightarrow> string list \<Rightarrow> recipe_dict list \<Rightarrow> run_trace \<Rightarrow> error + (recipe_dict list \<times> run_trace)" where
  "meal_types_loop src tool ctx cs max_retries day_num [] day_list tr = Inr (day_list, tr)"
| "meal_types_loop src tool ctx cs max_retries day_num (meal_type # rest) day_list tr =
     (case generate_validated_recipe src tool meal_type ctx cs max_retries (source_calls tr) of
        Inl e \<Rightarrow> Inl e
      | Inr (Some recipe, calls) \<Rightarrow>
          meal_types_loop src tool ctx cs max_retries day_num rest (day_list @ [recipe])
            (tr\<lparr>source_calls := calls\<rparr>)
      | Inr (None, calls) \<Rightarrow>
          meal_types_loop src tool ctx cs max_retries day_num rest day_list
            (tr\<lparr>source_calls := calls,
                failure_log := failure_log tr @ [(day_num, meal_type)]\<rparr>))"

fun days_loop ::
  "recipe_source \<Rightarrow> nutrition_tool \<Rightarrow> planning_context \<Rightarrow> constraints \<Rightarrow> int
     \<Rightarrow> int list \<Rightarrow> day_meals list \<Rightarrow> run_trace \<Rightarrow> error + (day_meals list \<times> run_trace)" where
  "days_loop src tool ctx cs max_retries [] weekly_plan tr = Inr (weekly_plan, tr)"
| "days_loop src tool ctx cs max_retries (day_num # rest) weekly_plan tr =
     (case meal_types_loop src tool ctx cs max_retries day_num
             [''breakfast'', ''lunch'', ''dinner''] [] tr of
        Inl e \<Rightarrow> Inl e
      | Inr (day_list, tr') \<Rightarrow>
          days_loop src tool ctx cs max_retries rest
            (weekly_plan @ [\<lparr>day = day_num, meals = day_list\<rparr>]) tr')"

text \<open>
  \<open>generate_complete_meal_plan\<close>, steps 1 to 3: the planning context, the constraints
  and the outcome \<open>valid\<close> of \<open>validate_profile_completeness\<close> are the results of step 1
  and are taken as inputs; an incomplete profile raises \<open>ValueError\<close> before any
  generation. The value is the \<open>weekly_plan\<close> entry of the returned plan, with the trace
  of the run; steps 4 and 5 (optimization, grocery list) only read the weekly plan.
\<close>

definition generate_complete_meal_plan ::
  "recipe_source \<Rightarrow> nutrition_tool \<Rightarrow> bool \<Rightarrow> planning_context \<Rightarrow> constraints \<Rightarrow> int \<Rightarrow> int
     \<Rightarrow> error + (day_meals list \<times> run_trace)" where
  "generate_complete_meal_plan src tool valid ctx cs days max_retries =
     (if \<not> valid then Inl ValueError
      else days_loop src tool ctx cs max_retries [1..days] []
             \<lparr>source_calls = [], failure_log = []\<rparr>)"

section \<open>Profile store and memory bank\<close>

record HouseholdProfile =
  household_id :: string
  members :: "family_member list"
  shared_appliances :: "string list"
  cooking_time_max_minutes :: int
  budget_weekly :: "rat option"
  cuisine_preferences :: "string list"
  meal_count_per_day :: int

text \<open>
  \<open>get_all_constraints\<close> of the profile store builds four Python sets of strings and
  returns \<open>list(...)\<close> of each. A Python set of strings is enumerated in an order the
  language does not fix, so the returned lists are modelled by the sets themselves.
  \<open>members\<close> lists the values of the member dictionary in insertion order.
\<close>

record constraint_sets =
  all_allergies :: "string set"
  all_restrictions :: "string set"
  all_conditions :: "string set"
  all_dislikes :: "string set"

fun members_loop :: "family_member list \<Rightarrow> constraint_sets \<Rightarrow> constraint_sets" where
  "members_loop [] acc = acc"
| "members_loop (member # rest) acc =
     members_loop rest
       \<lparr>all_allergies = all_allergies acc \<union> set (m_allergies member),
        all_restrictions = all_restrictions acc \<union> set (m_dietary_restrictions member),
        all_conditions = all_conditions acc \<union> set (m_health_conditions member),
        all_dislikes = all_dislikes acc \<union> set (m_dislikes member)\<rparr>"

text \<open>An unknown household yields the empty dictionary, here \<open>None\<close>.\<close>

definition get_all_constraints ::
  "(string \<rightharpoonup> HouseholdProfile) \<Rightarrow> string \<Rightarrow> constraint_sets option" where
  "get_all_constraints profiles hid =
     (case profiles hid of
        None \<Rightarrow> None
      | Some household \<Rightarrow>
          Some (members_loop (members household)
                  \<lparr>all_allergies = {}, all_restrictions = {}, all_conditions = {},
                   all_dislikes = {}\<rparr>))"

text \<open>The part of the memory bank read by the guideline lookup, as a list of entries.\<close>

record memory_bank =
  health_condition_mappings :: "(string \<times> guidelines) list"

definition initialize_memory_structure :: memory_bank where
  "initialize_memory_structure = \<lparr>health_condition_mappings =
     [(''diabetes'',
         \<lparr>g_avoid = [''sugar'', ''white bread'', ''candy'', ''soda''],
          g_prefer = [''whole grains'', ''vegetables'', ''lean protein'']\<rparr>),
      (''PCOS'',
         \<lparr>g_avoid = [''refined carbs'', ''sugary foods''],
          g_prefer = [''low-GI foods'', ''lean protein'', ''vegetables'']\<rparr>),
      (''high blood pressure'',
         \<lparr>g_avoid = [''salt'', ''processed foods'', ''fatty meats''],
          g_prefer = [''low sodium'', ''vegetables'', ''whole grains'']\<rparr>),
      (''gluten intolerance'',
         \<lparr>g_avoid = [''wheat'', ''barley'', ''rye''],
          g_prefer = [''rice'', ''quinoa'', ''gluten-free grains'']\<rparr>)]\<rparr>"

definition get_health_condition_guidelines :: "memory_bank \<Rightarrow> string \<Rightarrow> guidelines" where
  "get_health_condition_guidelines memory condition =
     (let condition_lower = lower condition
      in case map_of (health_condition_mappings memory) condition_lower of
           None \<Rightarrow> \<lparr>g_avoid = [], g_prefer = []\<rparr>
         | Some g \<Rightarrow> g)"

section \<open>Schedule optimizer: cooking-time statistics\<close>

text \<open>\<open>min_time\<close> starts at \<open>float('inf')\<close>.\<close>

datatype min_time = Infinity | Finite int

fun py_min :: "min_time \<Rightarrow> int \<Rightarrow> min_time" where
  "py_min Infinity t = Finite t"
| "py_min (Finite m) t = Finite (min m t)"

record time_acc =
  acc_daily_times :: "int list"
  acc_total_time :: int
  acc_max_time :: int
  acc_min_time :: min_time

record cooking_time_stats =
  total_minutes :: int
  average_per_day :: rat
  max_day :: int
  min_day :: int
  daily_times :: "int list"

text \<open>
  \<open>sum(meal.get("cooking_time_minutes", 0) for meal in day.get("meals", []))\<close>. The times
  are integers; the average is the quotient of two integers and is kept as that quotient.
\<close>

definition day_time :: "day_meals \<Rightarrow> int" where
  "day_time d =
     sum_list (map (\<lambda>meal. case d_cooking_time_minutes meal of None \<Rightarrow> 0 | Some t \<Rightarrow> t)
                 (meals d))"

fun cooking_times_loop :: "day_meals list \<Rightarrow> time_acc \<Rightarrow> time_acc" where
  "cooking_times_loop [] acc = acc"
| "cooking_times_loop (d # rest) acc =
     cooking_times_loop rest
       \<lparr>acc_daily_times = acc_daily_times acc @ [day_time d],
        acc_total_time = acc_total_time acc + day_time d,
        acc_max_time = max (acc_max_time acc) (day_time d),
        acc_min_time = py_min (acc_min_time acc) (day_time d)\<rparr>"

definition analyze_cooking_times :: "day_meals list \<Rightarrow> cooking_time_stats" where
  "analyze_cooking_times weekly_plan =
     (let acc = cooking_times_loop weekly_plan
                  \<lparr>acc_daily_times = [], acc_total_time = 0, acc_max_time = 0,
                   acc_min_time = Infinity\<rparr>
      in \<lparr>total_minutes = acc_total_time acc,
          average_per_day =
            (if weekly_plan \<noteq> []
             then of_int (acc_total_time acc) / of_int (int (length weekly_plan)) else 0),
          max_day = acc_max_time acc,
          min_day = (case acc_min_time acc of Infinity \<Rightarrow> 0 | Finite m \<Rightarrow> m),
          daily_times = acc_daily_times acc\<rparr>)"

section \<open>The specification's reading of nutrition per serving\<close>

text \<open>
  The specification sums the lookups over the lines with a weight-bearing unit, grams or ml,
  only. This second definition follows those words; it is compared with
  \<open>calculate_recipe_nutrition\<close> below.
\<close>

definition weight_bearing :: "ingredient \<Rightarrow> bool" where
  "weight_bearing i = (ing_unit i = Some ''grams'' \<or> ing_unit i = Some ''ml'')"

definition spec_nutrition_per_serving :: "nutrition_tool \<Rightarrow> recipe_dict \<Rightarrow> nutrition" where
  "spec_nutrition_per_serving tool recipe =
     map_nutrition (\<lambda>v. py_round2 (fdiv v (fl (of_int (recipe_servings recipe)))))
       (foldl add_nutrition zero_nutrition
          (List.map_filter
             (\<lambda>i. if weight_bearing i then tool (ing_name i) (ing_amount i) else None)
             (d_ingredients recipe)))"

text \<open>The lookups that the source adds up: every line but the \<open>"pieces"\<close> lines.\<close>

definition counted_lookups :: "nutrition_tool \<Rightarrow> ingredient list \<Rightarrow> nutrition list" where
  "counted_lookups tool lines =
     List.map_filter
       (\<lambda>i. if ing_unit i = Some ''pieces'' then None else tool (ing_name i) (ing_amount i))
       lines"

text \<open>A member's four constraint lists, read as sets.\<close>

definition member_constraint_sets ::
  "family_member \<Rightarrow> string set \<times> string set \<times> string set \<times> string set" where
  "member_constraint_sets m =
     (set (m_allergies m), set (m_dietary_restrictions m), set (m_health_conditions m),
      set (m_dislikes m))"


section \<open>Example inputs\<close>

text \<open>
  The nutrient lookup as it answers without an API key for a name that matches no row of
  the fallback table: the generic default per 100 g, times \<open>scale = amount_grams / 100.0\<close>.
\<close>

definition generic_fallback_lookup :: nutrition_tool where
  "generic_fallback_lookup ingredient amount_grams =
     (let scale = fdiv (fl amount_grams) 100
      in Some \<lparr>calories = fmul 100 scale, protein_g = fmul 5 scale, carbs_g = fmul 15 scale,
           fat_g = fmul 3 scale, fiber_g = fmul 2 scale, sugar_g = fmul 0 scale,
           sodium_mg = fmul 0 scale\<rparr>)"

definition simple_recipe :: "string \<Rightarrow> string \<Rightarrow> int \<Rightarrow> ingredient list \<Rightarrow> Recipe" where
  "simple_recipe nm mt srv lines = \<lparr>r_name = nm, r_meal_type = mt, r_cuisine = None,
     r_cooking_time_minutes = 20, r_servings = srv, r_ingredients = lines,
     r_instructions = [], r_nutritional_info = None, r_tags = [], r_suitable_for = []\<rparr>"

definition grams :: "string \<Rightarrow> rat \<Rightarrow> ingredient" where
  "grams nm amount = \<lparr>ing_name = nm, ing_amount = amount, ing_unit = Some ''grams''\<rparr>"

definition peanut_noodles :: Recipe where
  "peanut_noodles = simple_recipe ''Peanut Noodles'' ''lunch'' 4
     [grams ''rice noodles'' 300, grams ''Peanut Butter'' 100]"

definition shellfish_stew :: Recipe where
  "shellfish_stew = simple_recipe ''Shellfish Stew'' ''lunch'' 4 [grams ''shellfish stock'' 400]"

definition tofu_bowl :: Recipe where
  "tofu_bowl = simple_recipe ''Tofu Bowl'' ''lunch'' 4 [grams ''firm tofu'' 400]"

definition lentil_soup :: Recipe where
  "lentil_soup = simple_recipe ''Lentil Soup'' ''lunch'' 4 [grams ''lentils'' 400]"

definition chicken_salad :: Recipe where
  "chicken_salad = simple_recipe ''Chicken Salad'' ''lunch'' 4
     [grams ''mixed greens'' 200, grams ''Chicken breast'' 600]"

definition zero_servings_noodles :: Recipe where
  "zero_servings_noodles = simple_recipe ''Peanut Noodles'' ''lunch'' 0
     [grams ''rice noodles'' 300, grams ''Peanut Butter'' 100]"

text \<open>A lookup that raises for one ingredient name and answers the generic default otherwise.\<close>

definition picky_lookup :: nutrition_tool where
  "picky_lookup ingredient amount_grams =
     (if ingredient = ''saffron'' then None
      else generic_fallback_lookup ingredient amount_grams)"

definition omelette :: Recipe where
  "omelette = simple_recipe ''Vegetable Omelette with Potatoes'' ''breakfast'' 4
     [\<lparr>ing_name = ''eggs'', ing_amount = 8, ing_unit = Some ''pieces''\<rparr>,
      grams ''potato'' 300,
      \<lparr>ing_name = ''olive oil'', ing_amount = 20, ing_unit = Some ''ml''\<rparr>,
      grams ''saffron'' 1]"

text \<open>A recipe whose fat total, 4.05 in decimals, is halved and rounded.\<close>

definition small_flatbread :: Recipe where
  "small_flatbread = simple_recipe ''Flatbread'' ''lunch'' 2 [grams ''flour'' 135]"

definition flour_in_cups :: recipe_dict where
  "flour_in_cups = model_dump (simple_recipe ''Flatbread'' ''lunch'' 4
     [\<lparr>ing_name = ''flour'', ing_amount = 400, ing_unit = Some ''cups''\<rparr>])"

definition member_named :: "string \<Rightarrow> string list \<Rightarrow> int option \<Rightarrow> family_member" where
  "member_named nm allergies target = \<lparr>m_name = nm, m_age = None, m_health_conditions = [],
     m_allergies = allergies, m_dietary_restrictions = [], m_preferences = [], m_dislikes = [],
     m_calorie_target = target\<rparr>"

text \<open>A member with a target of 1400 calories, and a nutrition with 637 calories.\<close>

definition ann :: family_member where
  "ann = member_named ''Ann'' [] (Some 1400)"

definition calories_637 :: nutrition where
  "calories_637 = \<lparr>calories = 637, protein_g = 30, carbs_g = 60, fat_g = 20, fiber_g = 8,
     sugar_g = 0, sodium_mg = 0\<rparr>"

definition bob :: family_member where
  "bob = member_named ''Bob'' [''peanut'', ''shellfish''] (Some 2000)"

definition bob_context :: planning_context where
  "bob_context = \<lparr>ctx_household_id = ''home'', ctx_members = [bob],
     ctx_cooking_time_max = 45\<rparr>"

definition bob_constraints :: constraints where
  "bob_constraints = \<lparr>c_allergies = [''peanut'', ''shellfish''], c_dietary_restrictions = [],
     c_health_conditions = [], c_dislikes = [], c_health_guidelines = []\<rparr>"

definition vegetarian_constraints :: constraints where
  "vegetarian_constraints = \<lparr>c_allergies = [], c_dietary_restrictions = [''vegetarian''],
     c_health_conditions = [], c_dislikes = [], c_health_guidelines = []\<rparr>"

text \<open>
  A source stub whose first reply violates the constraints of Bob's household and whose
  later replies comply; the second and third replies are different recipes.
\<close>

definition violate_then_comply :: recipe_source where
  "violate_then_comply n call =
     (if n = 0 then Inr peanut_noodles else if n = 1 then Inr tofu_bowl else Inr lentil_soup)"

text \<open>Two source stubs that always violate, each for its own reason.\<close>

definition always_peanut :: recipe_source where
  "always_peanut n call = Inr peanut_noodles"

definition always_shellfish :: recipe_source where
  "always_shellfish n call = Inr shellfish_stew"

definition accepted :: "Recipe \<Rightarrow> recipe_dict" where
  "accepted r = (model_dump r)
     \<lparr>d_nutritional_info := Some \<lparr>calories = 100, protein_g = 5, carbs_g = 15, fat_g = 3,
        fiber_g = 2, sugar_g = 0, sodium_mg = 0\<rparr>,
      d_nutrition_validated := True\<rparr>"

text \<open>A household whose two members spell the same allergy differently.\<close>

definition peanut_household :: HouseholdProfile where
  "peanut_household = \<lparr>household_id = ''home'',
     members = [member_named ''Bob'' [''Peanuts''] None, member_named ''Alice'' [''peanuts''] None],
     shared_appliances = [], cooking_time_max_minutes = 45, budget_weekly = None,
     cuisine_preferences = [], meal_count_per_day = 3\<rparr>"

definition peanut_household_swapped :: HouseholdProfile where
  "peanut_household_swapped = peanut_household
     \<lparr>members := [member_named ''Alice'' [''peanuts'', ''peanuts''] None,
                  member_named ''Bob'' [''Peanuts''] None]\<rparr>"

text \<open>A three-day plan whose days take 40, 50 and 30 minutes.\<close>

definition timed_meal :: "int \<Rightarrow> recipe_dict" where
  "timed_meal t = (model_dump tofu_bowl)\<lparr>d_cooking_time_minutes := Some t\<rparr>"

definition three_day_plan :: "day_meals list" where
  "three_day_plan =
     [\<lparr>day = 1, meals = [timed_meal 10, timed_meal 30]\<rparr>,
      \<lparr>day = 2, meals = [timed_meal 50]\<rparr>,
      \<lparr>day = 3, meals = [timed_meal 10, timed_meal 10, timed_meal 10]\<rparr>]"

section \<open>Evaluation of the examples\<close>

text \<open>
  The floor of a quotient of numerals, and the equations that evaluate the binary64
  operations on numerals. They are applied once the float operations have numerals as
  arguments.
\<close>

lemma floor_rat_numeral_div:
  "\<lfloor>numeral a / numeral b :: rat\<rfloor> = numeral a div numeral b"
  by (metis floor_divide_of_int_eq of_int_numeral)

lemma floor_rat_neg_numeral_div:
  "\<lfloor>- (numeral a / numeral b) :: rat\<rfloor> = - numeral a div numeral b"
  by (metis divide_minus_left floor_divide_of_int_eq of_int_neg_numeral of_int_numeral)

lemmas float_eval = fl_def floor_log2.simps pow2_def round_half_even_def Let_def
  fadd_def fsub_def fmul_def fdiv_def py_round2_def float_sum_def py_int_def
  floor_rat_numeral_div floor_rat_neg_numeral_div

text \<open>
  Known values: the floats \<open>0.35\<close> and \<open>0.01\<close>, \<open>1400 * 0.35 = 489.99999999999994\<close>,
  \<open>0.1 + 0.2 = 0.30000000000000004\<close> and \<open>round(0.03 / 6, 2) = 0.01\<close>.
\<close>

lemma binary64_examples:
  "fl (35 / 100) = 3152519739159347 / 9007199254740992"
  "fl (1 / 100) = 5764607523034235 / 576460752303423488"
  "fmul (fl (of_int 1400)) (fl (35 / 100)) = 8620171161763839 / 17592186044416"
  "fadd (fl (1 / 10)) (fl (2 / 10)) = 1351079888211149 / 4503599627370496"
  "py_round2 (fdiv (fl (3 / 100)) (fl (of_int 6))) = fl (1 / 100)"
  by (simp_all add: float_eval)

lemmas recipe_eval = model_dump_def simple_recipe_def grams_def recipe_servings_def
  recipe_meal_type_def generic_fallback_lookup_def picky_lookup_def add_nutrition_def
  zero_nutrition_def map_nutrition_def calculate_recipe_nutrition_def counted_lookups_def
  List.map_filter_simps Let_def

text \<open>
  Nutrition per serving of the example recipes under the generic lookup: 400 g over 4
  servings give the generic default per 100 g, 800 g over 4 servings twice that.
\<close>

lemma calc_peanut_noodles:
  "calculate_recipe_nutrition generic_fallback_lookup (model_dump peanut_noodles)
     = Inr \<lparr>calories = 100, protein_g = 5, carbs_g = 15, fat_g = 3, fiber_g = 2, sugar_g = 0,
            sodium_mg = 0\<rparr>"
  apply (simp add: recipe_eval peanut_noodles_def)
  apply (simp add: float_eval)
  done

lemma calc_shellfish_stew:
  "calculate_recipe_nutrition generic_fallback_lookup (model_dump shellfish_stew)
     = Inr \<lparr>calories = 100, protein_g = 5, carbs_g = 15, fat_g = 3, fiber_g = 2, sugar_g = 0,
            sodium_mg = 0\<rparr>"
  apply (simp add: recipe_eval shellfish_stew_def)
  apply (simp add: float_eval)
  done

lemma calc_tofu_bowl:
  "calculate_recipe_nutrition generic_fallback_lookup (model_dump tofu_bowl)
     = Inr \<lparr>calories = 100, protein_g = 5, carbs_g = 15, fat_g = 3, fiber_g = 2, sugar_g = 0,
            sodium_mg = 0\<rparr>"
  apply (simp add: recipe_eval tofu_bowl_def)
  apply (simp add: float_eval)
  done

lemma calc_lentil_soup:
  "calculate_recipe_nutrition generic_fallback_lookup (model_dump lentil_soup)
     = Inr \<lparr>calories = 100, protein_g = 5, carbs_g = 15, fat_g = 3, fiber_g = 2, sugar_g = 0,
            sodium_mg = 0\<rparr>"
  apply (simp add: recipe_eval lentil_soup_def)
  apply (simp add: float_eval)
  done

lemma calc_chicken_salad:
  "calculate_recipe_nutrition generic_fallback_lookup (model_dump chicken_salad)
     = Inr \<lparr>calories = 200, protein_g = 10, carbs_g = 30, fat_g = 6, fiber_g = 4, sugar_g = 0,
            sodium_mg = 0\<rparr>"
  apply (simp add: recipe_eval chicken_salad_def)
  apply (simp add: float_eval)
  done

lemma meal_type_peanut_noodles: "recipe_meal_type (model_dump peanut_noodles) = ''lunch''"
  by (simp add: recipe_eval peanut_noodles_def)

lemma meal_type_shellfish_stew: "recipe_meal_type (model_dump shellfish_stew) = ''lunch''"
  by (simp add: recipe_eval shellfish_stew_def)

lemma meal_type_tofu_bowl: "recipe_meal_type (model_dump tofu_bowl) = ''lunch''"
  by (simp add: recipe_eval tofu_bowl_def)

lemma meal_type_lentil_soup: "recipe_meal_type (model_dump lentil_soup) = ''lunch''"
  by (simp add: recipe_eval lentil_soup_def)

lemma meal_type_chicken_salad: "recipe_meal_type (model_dump chicken_salad) = ''lunch''"
  by (simp add: recipe_eval chicken_salad_def)

lemma members_bob: "ctx_members bob_context = [bob]"
  by (simp add: bob_context_def)

text \<open>Bob's lunch share of 2000 calories is 700; both example summaries are far below it.\<close>

lemma bob_lunch_100:
  "check_calorie_targets
     \<lparr>calories = 100, protein_g = 5, carbs_g = 15, fat_g = 3, fiber_g = 2, sugar_g = 0,
      sodium_mg = 0\<rparr> [bob] ''lunch''
     = [''Bob: lunch is 600 calories under target (700 expected)'']"
  apply (simp add: check_calorie_targets_def member_calorie_warning_def bob_def member_named_def
      meal_percentage_def Let_def)
  apply (simp add: float_eval)
  apply code_simp
  done

lemma bob_lunch_200:
  "check_calorie_targets
     \<lparr>calories = 200, protein_g = 10, carbs_g = 30, fat_g = 6, fiber_g = 4, sugar_g = 0,
      sodium_mg = 0\<rparr> [bob] ''lunch''
     = [''Bob: lunch is 500 calories under target (700 expected)'']"
  apply (simp add: check_calorie_targets_def member_calorie_warning_def bob_def member_named_def
      meal_percentage_def Let_def)
  apply (simp add: float_eval)
  apply code_simp
  done

text \<open>The validation results of the example recipes for Bob's household.\<close>

lemma validate_peanut_noodles:
  "validate_recipe generic_fallback_lookup (model_dump peanut_noodles) bob_context
     bob_constraints
     = Inr \<lparr>is_compliant = False,
            violations = [''ALLERGEN ALERT: peanut (found in Peanut Butter)''],
            warnings = [''Bob: lunch is 600 calories under target (700 expected)''],
            nutritional_summary =
              \<lparr>calories = 100, protein_g = 5, carbs_g = 15, fat_g = 3, fiber_g = 2,
               sugar_g = 0, sodium_mg = 0\<rparr>,
            recommendations = [''Consider adding more protein sources'',
                               ''Consider adding more fiber-rich ingredients'']\<rparr>"
  apply (simp only: validate_recipe_def calc_peanut_noodles sum.case members_bob
      meal_type_peanut_noodles bob_lunch_100)
  apply code_simp
  done

lemma validate_shellfish_stew:
  "validate_recipe generic_fallback_lookup (model_dump shellfish_stew) bob_context
     bob_constraints
     = Inr \<lparr>is_compliant = False,
            violations = [''ALLERGEN ALERT: shellfish (found in shellfish stock)''],
            warnings = [''Bob: lunch is 600 calories under target (700 expected)''],
            nutritional_summary =
              \<lparr>calories = 100, protein_g = 5, carbs_g = 15, fat_g = 3, fiber_g = 2,
               sugar_g = 0, sodium_mg = 0\<rparr>,
            recommendations = [''Consider adding more protein sources'',
                               ''Consider adding more fiber-rich ingredients'']\<rparr>"
  apply (simp only: validate_recipe_def calc_shellfish_stew sum.case members_bob
      meal_type_shellfish_stew bob_lunch_100)
  apply code_simp
  done

lemma validate_tofu_bowl:
  "validate_recipe generic_fallback_lookup (model_dump tofu_bowl) bob_context bob_constraints
     = Inr \<lparr>is_compliant = True, violations = [],
            warnings = [''Bob: lunch is 600 calories under target (700 expected)''],
            nutritional_summary =
              \<lparr>calories = 100, protein_g = 5, carbs_g = 15, fat_g = 3, fiber_g = 2,
               sugar_g = 0, sodium_mg = 0\<rparr>,
            recommendations = [''Consider adding more protein sources'',
                               ''Consider adding more fiber-rich ingredients'']\<rparr>"
  apply (simp only: validate_recipe_def calc_tofu_bowl sum.case members_bob
      meal_type_tofu_bowl bob_lunch_100)
  apply code_simp
  done

lemma validate_lentil_soup:
  "validate_recipe generic_fallback_lookup (model_dump lentil_soup) bob_context bob_constraints
     = Inr \<lparr>is_compliant = True, violations = [],
            warnings = [''Bob: lunch is 600 calories under target (700 expected)''],
            nutritional_summary =
              \<lparr>calories = 100, protein_g = 5, carbs_g = 15, fat_g = 3, fiber_g = 2,
               sugar_g = 0, sodium_mg = 0\<rparr>,
            recommendations = [''Consider adding more protein sources'',
                               ''Consider adding more fiber-rich ingredients'']\<rparr>"
  apply (simp only: validate_recipe_def calc_lentil_soup sum.case members_bob
      meal_type_lentil_soup bob_lunch_100)
  apply code_simp
  done

lemma validate_tofu_bowl_vegetarian:
  "validate_recipe generic_fallback_lookup (model_dump tofu_bowl) bob_context
     vegetarian_constraints
     = Inr \<lparr>is_compliant = True, violations = [],
            warnings = [''Bob: lunch is 600 calories under target (700 expected)''],
            nutritional_summary =
              \<lparr>calories = 100, protein_g = 5, carbs_g = 15, fat_g = 3, fiber_g = 2,
               sugar_g = 0, sodium_mg = 0\<rparr>,
            recommendations = [''Consider adding more protein sources'',
                               ''Consider adding more fiber-rich ingredients'']\<rparr>"
  apply (simp only: validate_recipe_def calc_tofu_bowl sum.case members_bob
      meal_type_tofu_bowl bob_lunch_100)
  apply code_simp
  done

lemma validate_chicken_salad_vegetarian:
  "validate_recipe generic_fallback_lookup (model_dump chicken_salad) bob_context
     vegetarian_constraints
     = Inr \<lparr>is_compliant = False,
            violations = [''vegetarian restriction violated: contains Chicken breast''],
            warnings = [''Bob: lunch is 500 calories under target (700 expected)''],
            nutritional_summary =
              \<lparr>calories = 200, protein_g = 10, carbs_g = 30, fat_g = 6, fiber_g = 4,
               sugar_g = 0, sodium_mg = 0\<rparr>,
            recommendations = [''Consider adding more protein sources'',
                               ''Consider adding more fiber-rich ingredients'']\<rparr>"
  apply (simp only: validate_recipe_def calc_chicken_salad sum.case members_bob
      meal_type_chicken_salad bob_lunch_200)
  apply code_simp
  done

text \<open>The equations that evaluate a planning run on the example sources.\<close>

lemmas run_eval = generate_complete_meal_plan_def generate_validated_recipe_def
  violate_then_comply_def always_peanut_def always_shellfish_def accepted_def
  validate_peanut_noodles validate_shellfish_stew validate_tofu_bowl validate_lentil_soup
  upto_rec1

section \<open>Properties of the validator\<close>

text \<open>
  Validation returns a result unless the number of servings is 0; its violations are the
  allergen alerts, the restriction violations and the health-condition violations, in this
  order, and it is compliant exactly when there is none.
\<close>

lemma validate_recipe_returns:
  "recipe_servings R \<noteq> 0 \<Longrightarrow> \<exists>res. validate_recipe tool R ctx C = Inr res"
  by (simp add: validate_recipe_def calculate_recipe_nutrition_def Let_def)

lemma validate_recipe_violations:
  assumes "validate_recipe tool R ctx C = Inr res"
  shows "violations res =
     (if c_allergies C \<noteq> []
      then map (\<lambda>a. ''ALLERGEN ALERT: '' @ a) (check_allergens R (c_allergies C)) else [])
     @ (if c_dietary_restrictions C \<noteq> []
        then check_dietary_restrictions R (c_dietary_restrictions C) else [])
     @ (if c_health_conditions C \<noteq> []
        then fst (check_health_conditions R (c_health_conditions C) (c_health_guidelines C))
        else [])"
  using assms
  by (auto simp: validate_recipe_def Let_def split: sum.splits)

lemma validate_recipe_compliant:
  assumes "validate_recipe tool R ctx C = Inr res"
  shows "is_compliant res = (violations res = [])"
  using assms
  by (auto simp: validate_recipe_def Let_def split: sum.splits)

lemma check_allergens_hit:
  assumes "i \<in> set (d_ingredients R)" "a \<in> set allergies"
    "str_in (lower a) (lower (ing_name i))"
  shows "a @ '' (found in '' @ ing_name i @ '')'' \<in> set (check_allergens R allergies)"
  using assms unfolding check_allergens_def by (auto intro!: bexI[of _ i] bexI[of _ a])

lemma check_dietary_restrictions_hit:
  assumes "i \<in> set (d_ingredients R)" "r \<in> set restrictions"
    "map_of restriction_patterns (lower r) = Some forbidden"
    "t \<in> set forbidden" "str_in t (lower (ing_name i))"
  shows "r @ '' restriction violated: contains '' @ ing_name i
           \<in> set (check_dietary_restrictions R restrictions)"
proof -
  have "list_ex (\<lambda>f. str_in f (lower (ing_name i))) forbidden"
    using assms(4,5) by (auto simp: list_ex_iff)
  with assms(1) have "r @ '' restriction violated: contains '' @ ing_name i
      \<in> set (concat (map (\<lambda>i.
             if list_ex (\<lambda>forbidden_item. str_in forbidden_item (lower (ing_name i))) forbidden
             then [r @ '' restriction violated: contains '' @ ing_name i] else [])
           (d_ingredients R)))"
    by force
  with assms(2,3) show ?thesis
    unfolding check_dietary_restrictions_def by force
qed

lemma vegetarian_patterns:
  "map_of restriction_patterns (lower ''vegetarian'') =
     Some [''meat'', ''chicken'', ''beef'', ''pork'', ''fish'', ''salmon'']"
  by code_simp

text \<open>
  Claim C2, as stated: for every recipe and constraint set, an ingredient name that contains
  an allergy term case-insensitively makes \<open>validate_recipe\<close> return a non-compliant
  result with the matching \<open>ALLERGEN ALERT\<close> violation. This fails for a recipe with 0
  servings: the nutrition is computed before the allergen check, and the division by the
  servings raises \<open>ZeroDivisionError\<close>, so that no result is returned at all.
\<close>

theorem allergen_counterexample:
  "grams ''Peanut Butter'' 100 \<in> set (d_ingredients (model_dump zero_servings_noodles))
   \<and> ''peanut'' \<in> set (c_allergies bob_constraints)
   \<and> str_in (lower ''peanut'') (lower (ing_name (grams ''Peanut Butter'' 100)))
   \<and> validate_recipe generic_fallback_lookup (model_dump zero_servings_noodles)
        bob_context bob_constraints = Inl ZeroDivisionError"
proof -
  have c: "calculate_recipe_nutrition generic_fallback_lookup (model_dump zero_servings_noodles)
             = Inl ZeroDivisionError"
    by (simp add: calculate_recipe_nutrition_def recipe_servings_def model_dump_def
        zero_servings_noodles_def simple_recipe_def)
  have v: "validate_recipe generic_fallback_lookup (model_dump zero_servings_noodles)
        bob_context bob_constraints = Inl ZeroDivisionError"
    by (simp only: validate_recipe_def c sum.case)
  have i: "grams ''Peanut Butter'' 100 \<in> set (d_ingredients (model_dump zero_servings_noodles))"
    by code_simp
  have a: "''peanut'' \<in> set (c_allergies bob_constraints)" by code_simp
  have s: "str_in (lower ''peanut'') (lower (ing_name (grams ''Peanut Butter'' 100)))"
    by code_simp
  from i a s v show ?thesis by blast
qed

text \<open>
  Claim C2, amended: for every recipe whose number of servings is not 0 and every
  constraint set, if an ingredient name contains an allergy term case-insensitively then
  \<open>validate_recipe\<close> returns a result that is not compliant and whose violations contain
  \<open>ALLERGEN ALERT: <allergen> (found in <ingredient>)\<close>: an allergen hit is a violation,
  never only a warning.
\<close>

theorem allergen_hit_is_violation:
  assumes "recipe_servings R \<noteq> 0"
    and "i \<in> set (d_ingredients R)" and "a \<in> set (c_allergies C)"
    and "str_in (lower a) (lower (ing_name i))"
  shows "\<exists>res. validate_recipe tool R ctx C = Inr res \<and> is_compliant res = False
           \<and> ''ALLERGEN ALERT: '' @ a @ '' (found in '' @ ing_name i @ '')''
                \<in> set (violations res)"
proof -
  from assms(1) obtain res where res: "validate_recipe tool R ctx C = Inr res"
    using validate_recipe_returns by blast
  have ne: "c_allergies C \<noteq> []" using assms(3) by auto
  have "a @ '' (found in '' @ ing_name i @ '')'' \<in> set (check_allergens R (c_allergies C))"
    using assms(2-4) by (rule check_allergens_hit)
  then have "''ALLERGEN ALERT: '' @ a @ '' (found in '' @ ing_name i @ '')''
      \<in> set (map (\<lambda>a. ''ALLERGEN ALERT: '' @ a) (check_allergens R (c_allergies C)))"
    by (simp add: image_iff)
  then have hit: "''ALLERGEN ALERT: '' @ a @ '' (found in '' @ ing_name i @ '')''
      \<in> set (violations res)"
    using ne by (simp add: validate_recipe_violations[OF res])
  then have "violations res \<noteq> []" by auto
  then have "is_compliant res = False"
    by (simp add: validate_recipe_compliant[OF res])
  with res hit show ?thesis by blast
qed

theorem allergen_hit_is_violation_witness:
  "recipe_servings (model_dump peanut_noodles) \<noteq> 0
   \<and> grams ''Peanut Butter'' 100 \<in> set (d_ingredients (model_dump peanut_noodles))
   \<and> ''peanut'' \<in> set (c_allergies bob_constraints)
   \<and> str_in (lower ''peanut'') (lower (ing_name (grams ''Peanut Butter'' 100)))
   \<and> (\<exists>res. validate_recipe generic_fallback_lookup (model_dump peanut_noodles)
                bob_context bob_constraints = Inr res \<and> is_compliant res = False
           \<and> ''ALLERGEN ALERT: '' @ ''peanut'' @ '' (found in ''
                @ ing_name (grams ''Peanut Butter'' 100) @ '')'' \<in> set (violations res))"
proof -
  have h1: "recipe_servings (model_dump peanut_noodles) \<noteq> 0" by code_simp
  have h2: "grams ''Peanut Butter'' 100 \<in> set (d_ingredients (model_dump peanut_noodles))"
    by code_simp
  have h3: "''peanut'' \<in> set (c_allergies bob_constraints)" by code_simp
  have h4: "str_in (lower ''peanut'') (lower (ing_name (grams ''Peanut Butter'' 100)))"
    by code_simp
  show ?thesis
    using h1 h2 h3 h4 allergen_hit_is_violation[OF h1 h2 h3 h4] by blast
qed

text \<open>
  Claim C8: under a constraint set that lists the restriction \<open>vegetarian\<close>, a recipe that
  validates as compliant has no ingredient whose lower-cased name contains chicken, beef,
  pork, fish or salmon; any such ingredient yields the blocking violation
  \<open>vegetarian restriction violated: contains <ingredient>\<close>.
\<close>

theorem vegetarian_compliant_has_no_meat:
  assumes "''vegetarian'' \<in> set (c_dietary_restrictions C)"
    and "validate_recipe tool R ctx C = Inr res"
  shows "(is_compliant res \<longrightarrow>
            (\<forall>i\<in>set (d_ingredients R).
               \<forall>t\<in>set [''chicken'', ''beef'', ''pork'', ''fish'', ''salmon''].
                 \<not> str_in t (lower (ing_name i))))
       \<and> (\<forall>i\<in>set (d_ingredients R).
            (\<exists>t\<in>set [''chicken'', ''beef'', ''pork'', ''fish'', ''salmon''].
               str_in t (lower (ing_name i)))
            \<longrightarrow> ''vegetarian restriction violated: contains '' @ ing_name i
                  \<in> set (violations res))"
proof -
  have ne: "c_dietary_restrictions C \<noteq> []" using assms(1) by auto
  have hit: "''vegetarian restriction violated: contains '' @ ing_name i \<in> set (violations res)"
    if i: "i \<in> set (d_ingredients R)"
      and t: "t \<in> set [''chicken'', ''beef'', ''pork'', ''fish'', ''salmon'']"
      and s: "str_in t (lower (ing_name i))" for i t
  proof -
    from t have t': "t \<in> set [''meat'', ''chicken'', ''beef'', ''pork'', ''fish'', ''salmon'']"
      by auto
    have "''vegetarian'' @ '' restriction violated: contains '' @ ing_name i
          \<in> set (check_dietary_restrictions R (c_dietary_restrictions C))"
      using i assms(1) vegetarian_patterns t' s by (rule check_dietary_restrictions_hit)
    then show ?thesis
      using ne by (simp add: validate_recipe_violations[OF assms(2)])
  qed
  have "violations res \<noteq> []"
    if "i \<in> set (d_ingredients R)"
      and "t \<in> set [''chicken'', ''beef'', ''pork'', ''fish'', ''salmon'']"
      and "str_in t (lower (ing_name i))" for i t
    using hit[OF that] by auto
  then have "is_compliant res \<longrightarrow>
            (\<forall>i\<in>set (d_ingredients R).
               \<forall>t\<in>set [''chicken'', ''beef'', ''pork'', ''fish'', ''salmon''].
                 \<not> str_in t (lower (ing_name i)))"
    unfolding validate_recipe_compliant[OF assms(2)] by blast
  moreover have "\<forall>i\<in>set (d_ingredients R).
            (\<exists>t\<in>set [''chicken'', ''beef'', ''pork'', ''fish'', ''salmon''].
               str_in t (lower (ing_name i)))
            \<longrightarrow> ''vegetarian restriction violated: contains '' @ ing_name i
                  \<in> set (violations res)"
    using hit by blast
  ultimately show ?thesis by blast
qed

theorem vegetarian_compliant_has_no_meat_witness:
  "''vegetarian'' \<in> set (c_dietary_restrictions vegetarian_constraints)
   \<and> validate_recipe generic_fallback_lookup (model_dump tofu_bowl) bob_context
        vegetarian_constraints
      = Inr (projr (validate_recipe generic_fallback_lookup (model_dump tofu_bowl) bob_context
                      vegetarian_constraints))
   \<and> is_compliant (projr (validate_recipe generic_fallback_lookup (model_dump tofu_bowl)
                      bob_context vegetarian_constraints))
   \<and> grams ''firm tofu'' 400 \<in> set (d_ingredients (model_dump tofu_bowl))
   \<and> \<not> str_in ''salmon'' (lower (ing_name (grams ''firm tofu'' 400)))
   \<and> validate_recipe generic_fallback_lookup (model_dump chicken_salad) bob_context
        vegetarian_constraints
      = Inr (projr (validate_recipe generic_fallback_lookup (model_dump chicken_salad)
                      bob_context vegetarian_constraints))
   \<and> grams ''Chicken breast'' 600 \<in> set (d_ingredients (model_dump chicken_salad))
   \<and> str_in ''chicken'' (lower (ing_name (grams ''Chicken breast'' 600)))
   \<and> ''vegetarian restriction violated: contains '' @ ing_name (grams ''Chicken breast'' 600)
        \<in> set (violations (projr (validate_recipe generic_fallback_lookup
                                    (model_dump chicken_salad) bob_context
                                    vegetarian_constraints)))"
proof -
  have h: "''vegetarian'' \<in> set (c_dietary_restrictions vegetarian_constraints)"
    by code_simp
  have v1: "validate_recipe generic_fallback_lookup (model_dump tofu_bowl) bob_context
        vegetarian_constraints
      = Inr (projr (validate_recipe generic_fallback_lookup (model_dump tofu_bowl) bob_context
                      vegetarian_constraints))"
    by (simp add: validate_tofu_bowl_vegetarian)
  have c1: "is_compliant (projr (validate_recipe generic_fallback_lookup (model_dump tofu_bowl)
                      bob_context vegetarian_constraints))"
    by (simp add: validate_tofu_bowl_vegetarian)
  have i1: "grams ''firm tofu'' 400 \<in> set (d_ingredients (model_dump tofu_bowl))"
    by code_simp
  have v2: "validate_recipe generic_fallback_lookup (model_dump chicken_salad) bob_context
        vegetarian_constraints
      = Inr (projr (validate_recipe generic_fallback_lookup (model_dump chicken_salad)
                      bob_context vegetarian_constraints))"
    by (simp add: validate_chicken_salad_vegetarian)
  have i2: "grams ''Chicken breast'' 600 \<in> set (d_ingredients (model_dump chicken_salad))"
    by code_simp
  have s2: "str_in ''chicken'' (lower (ing_name (grams ''Chicken breast'' 600)))"
    by code_simp
  have t2: "\<exists>t\<in>set [''chicken'', ''beef'', ''pork'', ''fish'', ''salmon''].
              str_in t (lower (ing_name (grams ''Chicken breast'' 600)))"
    using s2 by simp
  from vegetarian_compliant_has_no_meat[OF h v1] c1
  have "\<forall>i\<in>set (d_ingredients (model_dump tofu_bowl)).
         \<forall>t\<in>set [''chicken'', ''beef'', ''pork'', ''fish'', ''salmon''].
           \<not> str_in t (lower (ing_name i))"
    by blast
  with i1 have a: "\<not> str_in ''salmon'' (lower (ing_name (grams ''firm tofu'' 400)))"
    by simp
  from vegetarian_compliant_has_no_meat[OF h v2] i2 t2
  have b: "''vegetarian restriction violated: contains '' @ ing_name (grams ''Chicken breast'' 600)
        \<in> set (violations (projr (validate_recipe generic_fallback_lookup
                                    (model_dump chicken_salad) bob_context
                                    vegetarian_constraints)))"
    by blast
  show ?thesis using h v1 c1 i1 a v2 i2 s2 b by blast
qed

section \<open>Nutrition per serving\<close>

text \<open>
  The loop adds the lookups of the counted lines to the totals, field by field, in the order
  of the ingredient lines.
\<close>

lemma total_nutrition_foldl:
  "total_nutrition tool lines acc = foldl add_nutrition acc (counted_lookups tool lines)"
  by (induction lines arbitrary: acc)
     (simp_all add: counted_lookups_def List.map_filter_simps split: option.splits)

lemma foldl_add_nutrition:
  "calories (foldl add_nutrition acc ns) = foldl fadd (calories acc) (map calories ns)"
  "protein_g (foldl add_nutrition acc ns) = foldl fadd (protein_g acc) (map protein_g ns)"
  "carbs_g (foldl add_nutrition acc ns) = foldl fadd (carbs_g acc) (map carbs_g ns)"
  "fat_g (foldl add_nutrition acc ns) = foldl fadd (fat_g acc) (map fat_g ns)"
  "fiber_g (foldl add_nutrition acc ns) = foldl fadd (fiber_g acc) (map fiber_g ns)"
  "sugar_g (foldl add_nutrition acc ns) = foldl fadd (sugar_g acc) (map sugar_g ns)"
  "sodium_mg (foldl add_nutrition acc ns) = foldl fadd (sodium_mg acc) (map sodium_mg ns)"
  by (induction ns arbitrary: acc) (simp_all add: add_nutrition_def)

text \<open>
  Claim C7, as stated: nutrition per serving sums the lookups over exactly the lines whose
  unit is grams or ml. This fails for a line with any other unit: the source skips only
  \<open>"pieces"\<close> lines, so 400 \<open>"cups"\<close> of flour are looked up as 400 grams, while the
  specification's reading gives zero totals.
\<close>

theorem nutrition_counterexample:
  "calculate_recipe_nutrition generic_fallback_lookup flour_in_cups
     = Inr \<lparr>calories = 100, protein_g = 5, carbs_g = 15, fat_g = 3, fiber_g = 2, sugar_g = 0,
            sodium_mg = 0\<rparr>
   \<and> spec_nutrition_per_serving generic_fallback_lookup flour_in_cups = zero_nutrition"
  apply (simp add: recipe_eval flour_in_cups_def spec_nutrition_per_serving_def
      weight_bearing_def)
  apply (simp add: float_eval)
  done

text \<open>
  Claim C7, amended: for every recipe whose number of servings (4 when absent) is not 0,
  nutrition per serving is returned, and each of its seven fields is the float sum, taken in
  the order of the ingredient lines from 0.0, of that field over the lookups of the lines
  whose unit is not \<open>"pieces"\<close> (whatever else the unit is, the amount is taken as grams)
  and whose lookup does not raise, divided by the servings and rounded to 2 decimals, all
  in binary64 arithmetic; a line whose lookup raises is skipped and the computation goes
  on.
\<close>

theorem nutrition_per_serving_sum:
  assumes "recipe_servings R \<noteq> 0"
  shows "\<exists>n. calculate_recipe_nutrition tool R = Inr n
     \<and> calories n = py_round2 (fdiv (float_sum (map calories
                          (counted_lookups tool (d_ingredients R))))
                        (fl (of_int (recipe_servings R))))
     \<and> protein_g n = py_round2 (fdiv (float_sum (map protein_g
                          (counted_lookups tool (d_ingredients R))))
                        (fl (of_int (recipe_servings R))))
     \<and> carbs_g n = py_round2 (fdiv (float_sum (map carbs_g
                          (counted_lookups tool (d_ingredients R))))
                        (fl (of_int (recipe_servings R))))
     \<and> fat_g n = py_round2 (fdiv (float_sum (map fat_g
                          (counted_lookups tool (d_ingredients R))))
                        (fl (of_int (recipe_servings R))))
     \<and> fiber_g n = py_round2 (fdiv (float_sum (map fiber_g
                          (counted_lookups tool (d_ingredients R))))
                        (fl (of_int (recipe_servings R))))
     \<and> sugar_g n = py_round2 (fdiv (float_sum (map sugar_g
                          (counted_lookups tool (d_ingredients R))))
                        (fl (of_int (recipe_servings R))))
     \<and> sodium_mg n = py_round2 (fdiv (float_sum (map sodium_mg
                          (counted_lookups tool (d_ingredients R))))
                        (fl (of_int (recipe_servings R))))
     \<and> (d_servings R = None \<longrightarrow> recipe_servings R = 4)"
  using assms
  by (simp add: calculate_recipe_nutrition_def Let_def total_nutrition_foldl
      foldl_add_nutrition map_nutrition_def zero_nutrition_def recipe_servings_def
      float_sum_def)

theorem nutrition_per_serving_sum_witness:
  "recipe_servings (model_dump omelette) \<noteq> 0
   \<and> map calories (counted_lookups picky_lookup (d_ingredients (model_dump omelette)))
       = [300, 20]
   \<and> (\<exists>n. calculate_recipe_nutrition picky_lookup (model_dump omelette) = Inr n
          \<and> calories n = 80 \<and> protein_g n = 4)
   \<and> recipe_servings (model_dump small_flatbread) \<noteq> 0
   \<and> (\<exists>n. calculate_recipe_nutrition generic_fallback_lookup (model_dump small_flatbread)
            = Inr n
          \<and> fat_g n = fl (203 / 100))"
proof -
  have h: "recipe_servings (model_dump omelette) \<noteq> 0"
    by (simp add: recipe_eval omelette_def)
  have l: "map calories (counted_lookups picky_lookup (d_ingredients (model_dump omelette)))
       = [300, 20]"
    apply (simp add: recipe_eval omelette_def)
    apply (simp add: float_eval)
    done
  have c: "py_round2 (fdiv (float_sum (map calories
              (counted_lookups picky_lookup (d_ingredients (model_dump omelette)))))
            (fl (of_int (recipe_servings (model_dump omelette))))) = 80"
    apply (simp add: recipe_eval omelette_def)
    apply (simp add: float_eval)
    done
  have p: "py_round2 (fdiv (float_sum (map protein_g
              (counted_lookups picky_lookup (d_ingredients (model_dump omelette)))))
            (fl (of_int (recipe_servings (model_dump omelette))))) = 4"
    apply (simp add: recipe_eval omelette_def)
    apply (simp add: float_eval)
    done
  from nutrition_per_serving_sum[OF h, of picky_lookup] c p
  have a: "\<exists>n. calculate_recipe_nutrition picky_lookup (model_dump omelette) = Inr n
          \<and> calories n = 80 \<and> protein_g n = 4"
    by auto
  have h': "recipe_servings (model_dump small_flatbread) \<noteq> 0"
    by (simp add: recipe_eval small_flatbread_def)
  have f: "py_round2 (fdiv (float_sum (map fat_g
              (counted_lookups generic_fallback_lookup
                 (d_ingredients (model_dump small_flatbread)))))
            (fl (of_int (recipe_servings (model_dump small_flatbread))))) = fl (203 / 100)"
    apply (simp add: recipe_eval small_flatbread_def)
    apply (simp add: float_eval)
    done
  from nutrition_per_serving_sum[OF h', of generic_fallback_lookup] f
  have b: "\<exists>n. calculate_recipe_nutrition generic_fallback_lookup
                 (model_dump small_flatbread) = Inr n
          \<and> fat_g n = fl (203 / 100)"
    by auto
  from h l a h' b show ?thesis by blast
qed

section \<open>Calorie targets\<close>

lemma check_calorie_targets_loop_append:
  "check_calorie_targets_loop cals mt ms ws =
     ws @ concat (map (member_calorie_warning cals mt) ms)"
  by (induction ms arbitrary: ws) simp_all

lemma check_calorie_targets_single:
  "check_calorie_targets nutr [m] mt = member_calorie_warning (calories nutr) mt m"
  by (simp add: check_calorie_targets_def)

lemma check_calorie_targets_concat:
  "check_calorie_targets nutr ms mt = concat (map (\<lambda>m. check_calorie_targets nutr [m] mt) ms)"
  by (simp add: check_calorie_targets_def check_calorie_targets_loop_append)

lemma validate_recipe_summary:
  assumes "validate_recipe tool R ctx C = Inr res"
  shows "calculate_recipe_nutrition tool R = Inr (nutritional_summary res)"
  using assms by (auto simp: validate_recipe_def Let_def split: sum.splits)

lemma validate_recipe_warnings:
  assumes "validate_recipe tool R ctx C = Inr res"
  shows "set (check_calorie_targets (nutritional_summary res) (ctx_members ctx)
           (recipe_meal_type R)) \<subseteq> set (warnings res)"
  using assms by (auto simp: validate_recipe_def Let_def split: sum.splits)

lemma validate_recipe_other_members:
  assumes "validate_recipe tool R ctx C = Inr res"
  shows "\<exists>res'. validate_recipe tool R (ctx\<lparr>ctx_members := ms\<rparr>) C = Inr res'
           \<and> violations res' = violations res \<and> is_compliant res' = is_compliant res"
  using assms by (auto simp: validate_recipe_def Let_def split: sum.splits)

text \<open>
  Claim C9, as stated: a member gets a warning exactly when the absolute difference between
  the calories per serving and target times meal share exceeds 30% of that expected value.
  This fails where the float arithmetic of the source decides otherwise. For a target of
  1400 at lunch the expected value is 490 and 637 calories are off by exactly 30%, which
  does not exceed 30%; the source computes \<open>1400 * 0.35 = 489.99999999999994\<close>, finds the
  difference above the threshold and warns, printing 489 as the expected calories.
\<close>

theorem calorie_target_counterexample:
  "check_calorie_targets calories_637 [ann] ''lunch''
     = [''Ann: lunch is 147 calories over target (489 expected)'']
   \<and> m_calorie_target ann = Some 1400
   \<and> calories calories_637 = 637
   \<and> \<bar>(637::rat) - 1400 * (35 / 100)\<bar> = (30 / 100) * (1400 * (35 / 100))"
proof -
  have w: "check_calorie_targets calories_637 [ann] ''lunch''
     = [''Ann: lunch is 147 calories over target (489 expected)'']"
    apply (simp add: check_calorie_targets_def member_calorie_warning_def ann_def
        calories_637_def member_named_def meal_percentage_def Let_def)
    apply (simp add: float_eval)
    apply code_simp
    done
  have t: "m_calorie_target ann = Some 1400" by (simp add: ann_def member_named_def)
  have c: "calories calories_637 = 637" by (simp add: calories_637_def)
  have e: "\<bar>(637::rat) - 1400 * (35 / 100)\<bar> = (30 / 100) * (1400 * (35 / 100))" by simp
  from w t c e show ?thesis by blast
qed

text \<open>
  Claim C9, amended: the calorie-target check compares the calories per serving with the
  member's target times the meal share, which is the float 0.25 for breakfast, 0.35 for
  lunch, 0.40 for dinner and 0.33 for any other meal type. The warnings of a member list are
  those of its members, one after the other. A member whose calorie target is present and
  not 0 gets one warning exactly when, in binary64 arithmetic, the absolute value of the
  float difference between calories and expected value exceeds the float product of the
  expected value and 0.3; the warning states the truncated float difference as the amount
  over or under, and the truncated expected value. A member without a target, or with a
  target of 0, gets none. The warnings land in the warnings of the validation result, and
  the violations and the compliance flag are the same whatever the member list is.
\<close>

theorem calorie_targets_only_warn:
  "(meal_percentage ''breakfast'' = fl (25 / 100) \<and> meal_percentage ''lunch'' = fl (35 / 100)
      \<and> meal_percentage ''dinner'' = fl (40 / 100)
      \<and> (mt \<noteq> ''breakfast'' \<and> mt \<noteq> ''lunch'' \<and> mt \<noteq> ''dinner''
           \<longrightarrow> meal_percentage mt = fl (33 / 100)))
   \<and> check_calorie_targets nutr mlist mt
       = concat (map (\<lambda>m. check_calorie_targets nutr [m] mt) mlist)
   \<and> (m_calorie_target m = Some t \<and> t \<noteq> 0
        \<and> expected = fmul (fl (of_int t)) (meal_percentage mt)
        \<and> cals = calories nutr
      \<longrightarrow> check_calorie_targets nutr [m] mt
            = (if fmul expected (fl (3 / 10)) < \<bar>fsub cals expected\<bar>
               then [m_name m @ '': '' @ mt @ '' is ''
                     @ (if expected < cals
                        then str_int (py_int (fsub cals expected)) @ '' calories over target (''
                        else str_int (py_int (fsub expected cals)) @ '' calories under target ('')
                     @ str_int (py_int expected) @ '' expected)'']
               else []))
   \<and> (m_calorie_target m = None \<or> m_calorie_target m = Some 0
      \<longrightarrow> check_calorie_targets nutr [m] mt = [])
   \<and> (validate_recipe tool R ctx C = Inr res
      \<longrightarrow> set (check_calorie_targets (nutritional_summary res) (ctx_members ctx)
                 (recipe_meal_type R)) \<subseteq> set (warnings res)
          \<and> (\<exists>res'. validate_recipe tool R (ctx\<lparr>ctx_members := ms\<rparr>) C = Inr res'
                \<and> violations res' = violations res
                \<and> is_compliant res' = is_compliant res))"
proof -
  have a: "meal_percentage ''breakfast'' = fl (25 / 100)
      \<and> meal_percentage ''lunch'' = fl (35 / 100)
      \<and> meal_percentage ''dinner'' = fl (40 / 100)
      \<and> (mt \<noteq> ''breakfast'' \<and> mt \<noteq> ''lunch'' \<and> mt \<noteq> ''dinner''
           \<longrightarrow> meal_percentage mt = fl (33 / 100))"
    by (simp add: meal_percentage_def)
  have b: "m_calorie_target m = Some t \<and> t \<noteq> 0
        \<and> expected = fmul (fl (of_int t)) (meal_percentage mt)
        \<and> cals = calories nutr
      \<longrightarrow> check_calorie_targets nutr [m] mt
            = (if fmul expected (fl (3 / 10)) < \<bar>fsub cals expected\<bar>
               then [m_name m @ '': '' @ mt @ '' is ''
                     @ (if expected < cals
                        then str_int (py_int (fsub cals expected)) @ '' calories over target (''
                        else str_int (py_int (fsub expected cals)) @ '' calories under target ('')
                     @ str_int (py_int expected) @ '' expected)'']
               else [])"
    by (simp add: check_calorie_targets_single member_calorie_warning_def Let_def)
  have c: "m_calorie_target m = None \<or> m_calorie_target m = Some 0
      \<longrightarrow> check_calorie_targets nutr [m] mt = []"
    by (auto simp: check_calorie_targets_single member_calorie_warning_def)
  show ?thesis
    using a b c check_calorie_targets_concat[of nutr mlist mt]
      validate_recipe_warnings[of tool R ctx C res]
      validate_recipe_other_members[of tool R ctx C res ms]
    by blast
qed

theorem calorie_targets_only_warn_witness:
  "m_calorie_target bob = Some 2000 \<and> (2000::int) \<noteq> 0
   \<and> (700::rat) = fmul (fl (of_int 2000)) (meal_percentage ''lunch'')
   \<and> check_calorie_targets
        \<lparr>calories = 100, protein_g = 5, carbs_g = 15, fat_g = 3, fiber_g = 2, sugar_g = 0,
         sodium_mg = 0\<rparr> [bob] ''lunch''
       = [''Bob: lunch is 600 calories under target (700 expected)'']
   \<and> validate_recipe generic_fallback_lookup (model_dump tofu_bowl) bob_context bob_constraints
       = Inr (projr (validate_recipe generic_fallback_lookup (model_dump tofu_bowl) bob_context
                       bob_constraints))
   \<and> ''Bob: lunch is 600 calories under target (700 expected)''
        \<in> set (warnings (projr (validate_recipe generic_fallback_lookup (model_dump tofu_bowl)
                                   bob_context bob_constraints)))
   \<and> is_compliant (projr (validate_recipe generic_fallback_lookup (model_dump tofu_bowl)
                             bob_context bob_constraints))"
proof -
  let ?n = "\<lparr>calories = 100, protein_g = 5, carbs_g = 15, fat_g = 3, fiber_g = 2, sugar_g = 0,
         sodium_mg = 0\<rparr> :: nutrition"
  let ?res = "projr (validate_recipe generic_fallback_lookup (model_dump tofu_bowl) bob_context
                       bob_constraints)"
  have t: "m_calorie_target bob = Some 2000" by (simp add: bob_def member_named_def)
  have z: "(2000::int) \<noteq> 0" by simp
  have e: "(700::rat) = fmul (fl (of_int 2000)) (meal_percentage ''lunch'')"
    apply (simp add: meal_percentage_def)
    apply (simp add: float_eval)
    done
  have c: "(100::rat) = calories ?n" by simp
  have v: "validate_recipe generic_fallback_lookup (model_dump tofu_bowl) bob_context
             bob_constraints = Inr ?res"
    by (simp add: validate_tofu_bowl)
  have ok: "is_compliant ?res" by (simp add: validate_tofu_bowl)
  have s: "nutritional_summary ?res = ?n" by (simp add: validate_tofu_bowl)
  have ms: "ctx_members bob_context = [bob]" by (rule members_bob)
  have mt: "recipe_meal_type (model_dump tofu_bowl) = ''lunch''"
    by (rule meal_type_tofu_bowl)
  note T = calorie_targets_only_warn[where mt = "''lunch''" and nutr = ?n and m = bob
      and t = 2000 and expected = 700 and cals = 100 and tool = generic_fallback_lookup
      and R = "model_dump tofu_bowl" and ctx = bob_context and C = bob_constraints
      and res = ?res]
  from T t z e c
  have "check_calorie_targets ?n [bob] ''lunch''
            = (if fmul (700::rat) (fl (3 / 10)) < \<bar>fsub 100 700\<bar>
               then [m_name bob @ '': '' @ ''lunch'' @ '' is ''
                     @ (if (700::rat) < 100
                        then str_int (py_int (fsub 100 700)) @ '' calories over target (''
                        else str_int (py_int (fsub 700 100)) @ '' calories under target ('')
                     @ str_int (py_int 700) @ '' expected)'']
               else [])"
    by blast
  also have "\<dots> = [''Bob: lunch is 600 calories under target (700 expected)'']"
    apply (simp add: float_eval bob_def member_named_def)
    apply code_simp
    done
  finally have w: "check_calorie_targets ?n [bob] ''lunch''
       = [''Bob: lunch is 600 calories under target (700 expected)'']" .
  from T v have "set (check_calorie_targets (nutritional_summary ?res) (ctx_members bob_context)
                 (recipe_meal_type (model_dump tofu_bowl))) \<subseteq> set (warnings ?res)"
    by blast
  then have "''Bob: lunch is 600 calories under target (700 expected)'' \<in> set (warnings ?res)"
    unfolding s ms mt w by simp
  with t z e w v ok show ?thesis by blast
qed

section \<open>Cooking-time statistics\<close>

text \<open>What the loop of \<open>analyze_cooking_times\<close> leaves in its four variables.\<close>

lemma cooking_times_loop_fields:
  "acc_daily_times (cooking_times_loop plan acc) = acc_daily_times acc @ map day_time plan"
  "acc_total_time (cooking_times_loop plan acc) = acc_total_time acc + sum_list (map day_time plan)"
  "acc_max_time (cooking_times_loop plan acc) = fold max (map day_time plan) (acc_max_time acc)"
  "acc_min_time (cooking_times_loop plan acc)
     = fold (\<lambda>t m. py_min m t) (map day_time plan) (acc_min_time acc)"
  by (induction plan arbitrary: acc) (simp_all add: max.commute)

lemma Max_insert_max:
  "finite S \<Longrightarrow> Max (insert (max a m) S) = max a (Max (insert (m::int) S))"
  by (cases "S = {}") (simp_all add: max.commute max.left_commute max.assoc)

lemma Min_insert_min:
  "finite S \<Longrightarrow> Min (insert (min m a) S) = min a (Min (insert (m::int) S))"
  by (cases "S = {}") (simp_all add: min.commute min.left_commute min.assoc)

lemma fold_max_Max: "fold max ts (m::int) = Max (insert m (set ts))"
  by (induction ts arbitrary: m) (simp_all add: Max_insert_max insert_commute)

lemma fold_py_min_Finite:
  "fold (\<lambda>t m. py_min m t) ts (Finite m) = Finite (Min (insert m (set ts)))"
  by (induction ts arbitrary: m) (simp_all add: Min_insert_min insert_commute)

lemma fold_py_min_Infinity:
  "ts \<noteq> [] \<Longrightarrow> fold (\<lambda>t m. py_min m t) ts Infinity = Finite (Min (set ts))"
  by (cases ts) (simp_all add: fold_py_min_Finite)

lemma day_time_nonneg:
  assumes "\<forall>meal\<in>set (meals d). \<forall>t. d_cooking_time_minutes meal = Some t \<longrightarrow> 0 \<le> t"
  shows "0 \<le> day_time d"
  unfolding day_time_def using assms
  by (intro sum_list_nonneg) (auto split: option.splits)

text \<open>
  Claim C10: the cooking-time statistics are defined on every weekly plan. For the empty plan
  they are total 0, average 0 (no division by zero), maximum 0 and minimum 0. For a
  non-empty plan the minimum is the least daily time, so the infinity that \<open>min_time\<close>
  starts with is never returned, and the average is the total over the number of days.
  When no meal has a negative cooking time, every returned number is non-negative.
\<close>

theorem cooking_time_stats_total:
  "analyze_cooking_times []
     = \<lparr>total_minutes = 0, average_per_day = 0, max_day = 0, min_day = 0, daily_times = []\<rparr>
   \<and> daily_times (analyze_cooking_times plan) = map day_time plan
   \<and> total_minutes (analyze_cooking_times plan) = sum_list (map day_time plan)
   \<and> max_day (analyze_cooking_times plan) = Max (insert 0 (set (map day_time plan)))
   \<and> (plan \<noteq> [] \<longrightarrow>
        min_day (analyze_cooking_times plan) = Min (set (map day_time plan))
        \<and> average_per_day (analyze_cooking_times plan)
            = of_int (sum_list (map day_time plan)) / of_int (int (length plan)))
   \<and> ((\<forall>d\<in>set plan. \<forall>meal\<in>set (meals d). \<forall>t.
          d_cooking_time_minutes meal = Some t \<longrightarrow> 0 \<le> t)
      \<longrightarrow> 0 \<le> total_minutes (analyze_cooking_times plan)
          \<and> 0 \<le> average_per_day (analyze_cooking_times plan)
          \<and> 0 \<le> max_day (analyze_cooking_times plan)
          \<and> 0 \<le> min_day (analyze_cooking_times plan)
          \<and> (\<forall>t\<in>set (daily_times (analyze_cooking_times plan)). 0 \<le> t))"
proof -
  have e: "analyze_cooking_times []
     = \<lparr>total_minutes = 0, average_per_day = 0, max_day = 0, min_day = 0, daily_times = []\<rparr>"
    by (simp add: analyze_cooking_times_def)
  have d: "daily_times (analyze_cooking_times plan) = map day_time plan"
    by (simp add: analyze_cooking_times_def Let_def cooking_times_loop_fields)
  have t: "total_minutes (analyze_cooking_times plan) = sum_list (map day_time plan)"
    by (simp add: analyze_cooking_times_def Let_def cooking_times_loop_fields)
  have mx: "max_day (analyze_cooking_times plan) = Max (insert 0 (set (map day_time plan)))"
    by (simp add: analyze_cooking_times_def Let_def cooking_times_loop_fields fold_max_Max)
  have mn: "min_day (analyze_cooking_times plan) = Min (set (map day_time plan))"
    if "plan \<noteq> []"
    using that
    by (simp add: analyze_cooking_times_def Let_def cooking_times_loop_fields
        fold_py_min_Infinity)
  have av: "average_per_day (analyze_cooking_times plan)
            = of_int (sum_list (map day_time plan)) / of_int (int (length plan))"
    if "plan \<noteq> []"
    using that by (simp add: analyze_cooking_times_def Let_def cooking_times_loop_fields)
  have nn: "0 \<le> total_minutes (analyze_cooking_times plan)
          \<and> 0 \<le> average_per_day (analyze_cooking_times plan)
          \<and> 0 \<le> max_day (analyze_cooking_times plan)
          \<and> 0 \<le> min_day (analyze_cooking_times plan)
          \<and> (\<forall>t\<in>set (daily_times (analyze_cooking_times plan)). 0 \<le> t)"
    if h: "\<forall>d\<in>set plan. \<forall>meal\<in>set (meals d). \<forall>t.
          d_cooking_time_minutes meal = Some t \<longrightarrow> 0 \<le> t"
  proof -
    have dn: "\<forall>x\<in>set (map day_time plan). 0 \<le> x"
      using h day_time_nonneg by auto
    then have tn: "0 \<le> sum_list (map day_time plan)" by (intro sum_list_nonneg) auto
    have "0 \<le> average_per_day (analyze_cooking_times plan)"
    proof (cases "plan = []")
      case True then show ?thesis by (simp add: e)
    next
      case False then show ?thesis using tn by (simp add: av)
    qed
    moreover have "0 \<le> min_day (analyze_cooking_times plan)"
    proof (cases "plan = []")
      case True then show ?thesis by (simp add: e)
    next
      case False then show ?thesis using dn by (simp add: mn)
    qed
    moreover have "0 \<le> max_day (analyze_cooking_times plan)"
      unfolding mx by simp
    ultimately show ?thesis using tn dn by (simp add: t d)
  qed
  show ?thesis using e d t mx mn av nn by blast
qed

theorem cooking_time_stats_total_witness:
  "list_all (\<lambda>d. list_all (\<lambda>meal. case d_cooking_time_minutes meal of
                                     None \<Rightarrow> True | Some t \<Rightarrow> 0 \<le> t) (meals d))
     three_day_plan
   \<and> three_day_plan \<noteq> []
   \<and> analyze_cooking_times three_day_plan
       = \<lparr>total_minutes = 120, average_per_day = 40, max_day = 50, min_day = 30,
          daily_times = [40, 50, 30]\<rparr>
   \<and> 0 \<le> total_minutes (analyze_cooking_times three_day_plan)
   \<and> 0 \<le> average_per_day (analyze_cooking_times three_day_plan)
   \<and> 0 \<le> max_day (analyze_cooking_times three_day_plan)
   \<and> 0 \<le> min_day (analyze_cooking_times three_day_plan)"
proof -
  have l: "list_all (\<lambda>d. list_all (\<lambda>meal. case d_cooking_time_minutes meal of
                                     None \<Rightarrow> True | Some t \<Rightarrow> 0 \<le> t) (meals d))
     three_day_plan"
    by code_simp
  then have h: "\<forall>d\<in>set three_day_plan. \<forall>meal\<in>set (meals d). \<forall>t.
          d_cooking_time_minutes meal = Some t \<longrightarrow> 0 \<le> t"
    by (fastforce simp: list_all_iff)
  have n: "three_day_plan \<noteq> []" by code_simp
  have v: "analyze_cooking_times three_day_plan
       = \<lparr>total_minutes = 120, average_per_day = 40, max_day = 50, min_day = 30,
          daily_times = [40, 50, 30]\<rparr>"
    by code_simp
  from cooking_time_stats_total[of three_day_plan] h
  have "0 \<le> total_minutes (analyze_cooking_times three_day_plan)
   \<and> 0 \<le> average_per_day (analyze_cooking_times three_day_plan)
   \<and> 0 \<le> max_day (analyze_cooking_times three_day_plan)
   \<and> 0 \<le> min_day (analyze_cooking_times three_day_plan)"
    by blast
  with l n v show ?thesis by simp
qed

section \<open>Constraint aggregation\<close>

text \<open>
  The member loop unites the members' lists; it depends on the members only through the
  sets of their four lists.
\<close>

lemma members_loop_fields:
  "all_allergies (members_loop ms acc) = all_allergies acc \<union> (\<Union>m\<in>set ms. set (m_allergies m))"
  "all_restrictions (members_loop ms acc)
     = all_restrictions acc \<union> (\<Union>m\<in>set ms. set (m_dietary_restrictions m))"
  "all_conditions (members_loop ms acc)
     = all_conditions acc \<union> (\<Union>m\<in>set ms. set (m_health_conditions m))"
  "all_dislikes (members_loop ms acc) = all_dislikes acc \<union> (\<Union>m\<in>set ms. set (m_dislikes m))"
  by (induction ms arbitrary: acc) auto

lemma members_loop_by_sets:
  "members_loop ms acc =
     \<lparr>all_allergies = all_allergies acc \<union> \<Union> ((\<lambda>(a, r, c, d). a) ` set (map member_constraint_sets ms)),
      all_restrictions = all_restrictions acc \<union> \<Union> ((\<lambda>(a, r, c, d). r) ` set (map member_constraint_sets ms)),
      all_conditions = all_conditions acc \<union> \<Union> ((\<lambda>(a, r, c, d). c) ` set (map member_constraint_sets ms)),
      all_dislikes = all_dislikes acc \<union> \<Union> ((\<lambda>(a, r, c, d). d) ` set (map member_constraint_sets ms))\<rparr>"
  by (induction ms arbitrary: acc) (auto simp: member_constraint_sets_def)

lemma members_loop_permuted:
  assumes "mset (map member_constraint_sets ms') = mset (map member_constraint_sets ms)"
  shows "members_loop ms' acc = members_loop ms acc"
proof -
  from assms have "set (map member_constraint_sets ms') = set (map member_constraint_sets ms)"
    by (rule mset_eq_setD)
  then show ?thesis by (simp only: members_loop_by_sets)
qed

text \<open>
  Claim C5, as stated: aggregation deduplicates case-insensitively, so that \<open>Peanuts\<close> and
  \<open>peanuts\<close> collapse to a single entry. This fails: the source adds the strings as they
  are to a Python set, which keeps both spellings.
\<close>

theorem aggregation_counterexample:
  "get_all_constraints [''home'' \<mapsto> peanut_household] ''home''
     = Some \<lparr>all_allergies = {''Peanuts'', ''peanuts''}, all_restrictions = {},
             all_conditions = {}, all_dislikes = {}\<rparr>
   \<and> card {''Peanuts'', ''peanuts''} = 2
   \<and> lower ''Peanuts'' = lower ''peanuts''"
  by code_simp

text \<open>
  Claim C5, amended: for every stored household, constraint aggregation is the set union
  over all members of their allergy, restriction, condition and dislike lists. It is
  invariant under permuting the members and under permuting or repeating the entries
  within a member's lists, and it removes exact duplicates only: two entries that differ in
  letter case stay apart.
\<close>

theorem aggregation_is_exact_union:
  assumes "profiles hid = Some h"
  shows "\<exists>cs. get_all_constraints profiles hid = Some cs
     \<and> all_allergies cs = (\<Union>m\<in>set (members h). set (m_allergies m))
     \<and> all_restrictions cs = (\<Union>m\<in>set (members h). set (m_dietary_restrictions m))
     \<and> all_conditions cs = (\<Union>m\<in>set (members h). set (m_health_conditions m))
     \<and> all_dislikes cs = (\<Union>m\<in>set (members h). set (m_dislikes m))
     \<and> (mset (map member_constraint_sets (members h'))
           = mset (map member_constraint_sets (members h))
        \<longrightarrow> get_all_constraints (profiles(hid \<mapsto> h')) hid = Some cs)"
proof -
  let ?init = "\<lparr>all_allergies = {}, all_restrictions = {}, all_conditions = {},
                all_dislikes = {}\<rparr>"
  have g: "get_all_constraints profiles hid = Some (members_loop (members h) ?init)"
    using assms by (simp add: get_all_constraints_def)
  have g': "get_all_constraints (profiles(hid \<mapsto> h')) hid
              = Some (members_loop (members h') ?init)"
    by (simp add: get_all_constraints_def)
  have "mset (map member_constraint_sets (members h'))
           = mset (map member_constraint_sets (members h))
        \<longrightarrow> get_all_constraints (profiles(hid \<mapsto> h')) hid
              = Some (members_loop (members h) ?init)"
    unfolding g' using members_loop_permuted[of "members h'" "members h" ?init] by blast
  with g show ?thesis
    by (simp add: members_loop_fields)
qed

theorem aggregation_is_exact_union_witness:
  "[''home'' \<mapsto> peanut_household] ''home'' = Some peanut_household
   \<and> mset (map member_constraint_sets (members peanut_household_swapped))
       = mset (map member_constraint_sets (members peanut_household))
   \<and> (\<exists>cs. get_all_constraints [''home'' \<mapsto> peanut_household] ''home'' = Some cs
          \<and> all_allergies cs = {''Peanuts'', ''peanuts''}
          \<and> get_all_constraints [''home'' \<mapsto> peanut_household_swapped] ''home'' = Some cs)"
proof -
  have p: "[''home'' \<mapsto> peanut_household] ''home'' = Some peanut_household" by simp
  have a: "member_constraint_sets (member_named ''Alice'' [''peanuts'', ''peanuts''] None)
           = member_constraint_sets (member_named ''Alice'' [''peanuts''] None)"
    by (simp add: member_constraint_sets_def member_named_def)
  have m: "mset (map member_constraint_sets (members peanut_household_swapped))
       = mset (map member_constraint_sets (members peanut_household))"
    by (simp add: peanut_household_swapped_def peanut_household_def a)
  have u: "(\<Union>m\<in>set (members peanut_household). set (m_allergies m)) = {''Peanuts'', ''peanuts''}"
    by (auto simp: peanut_household_def member_named_def)
  have s: "[''home'' \<mapsto> peanut_household](''home'' \<mapsto> peanut_household_swapped)
             = [''home'' \<mapsto> peanut_household_swapped]"
    by simp
  from aggregation_is_exact_union[where profiles = "[''home'' \<mapsto> peanut_household]"
      and hid = "''home''" and h = peanut_household and h' = peanut_household_swapped, OF p]
    m u s
  have "\<exists>cs. get_all_constraints [''home'' \<mapsto> peanut_household] ''home'' = Some cs
          \<and> all_allergies cs = {''Peanuts'', ''peanuts''}
          \<and> get_all_constraints [''home'' \<mapsto> peanut_household_swapped] ''home'' = Some cs"
    by auto
  with p m show ?thesis by blast
qed

section \<open>Health-condition guidelines\<close>

text \<open>
  Claim C6 says that the guideline lookup returns non-empty default data for PCOS. In the
  default memory structure the entry is stored under the key \<open>PCOS\<close>, while the lookup
  lower-cases the condition before it reads the table: the entry is never found, and the
  lookup of \<open>PCOS\<close>, in any spelling, returns empty lists.
\<close>

theorem pcos_guidelines_unreachable:
  "map_of (health_condition_mappings initialize_memory_structure) ''PCOS''
     = Some \<lparr>g_avoid = [''refined carbs'', ''sugary foods''],
             g_prefer = [''low-GI foods'', ''lean protein'', ''vegetables'']\<rparr>
   \<and> get_health_condition_guidelines initialize_memory_structure ''PCOS''
       = \<lparr>g_avoid = [], g_prefer = []\<rparr>
   \<and> get_health_condition_guidelines initialize_memory_structure ''pcos''
       = \<lparr>g_avoid = [], g_prefer = []\<rparr>"
  by code_simp

text \<open>
  The three entries with lower-case keys are found in any letter case; a condition without
  an entry gets empty lists.
\<close>

lemma guidelines_known_and_unknown:
  "get_health_condition_guidelines initialize_memory_structure ''Diabetes''
     = \<lparr>g_avoid = [''sugar'', ''white bread'', ''candy'', ''soda''],
        g_prefer = [''whole grains'', ''vegetables'', ''lean protein'']\<rparr>
   \<and> get_health_condition_guidelines initialize_memory_structure ''High Blood Pressure''
     = \<lparr>g_avoid = [''salt'', ''processed foods'', ''fatty meats''],
        g_prefer = [''low sodium'', ''vegetables'', ''whole grains'']\<rparr>
   \<and> get_health_condition_guidelines initialize_memory_structure ''gluten intolerance''
     = \<lparr>g_avoid = [''wheat'', ''barley'', ''rye''],
        g_prefer = [''rice'', ''quinoa'', ''gluten-free grains'']\<rparr>
   \<and> get_health_condition_guidelines initialize_memory_structure ''gout''
     = \<lparr>g_avoid = [], g_prefer = []\<rparr>"
  by code_simp

section \<open>The generate, validate, retry loop\<close>







text \<open>
  Claim C1 says that a slot costs at most \<open>maxRetriesPerSlot\<close> calls of the recipe source
  and that, with a source whose first reply violates and whose second reply complies,
  \<open>max_retries = 2\<close> accepts the second reply after exactly 2 calls. In the source each
  failed attempt but the last also calls \<open>regenerate_recipe\<close>, and the recipe it returns
  is overwritten by the next pass before it is validated. With \<open>max_retries = 2\<close> the
  slot makes three calls: the second reply (the compliant Tofu Bowl, the answer to the
  regeneration call) is thrown away, and the third reply is the one accepted.
\<close>

theorem retry_loop_makes_three_calls:
  "generate_validated_recipe violate_then_comply generic_fallback_lookup ''lunch''
     bob_context bob_constraints 2 []
   = Inr (Some (accepted lentil_soup),
          [\<lparr>call_meal_type = ''lunch'', call_additional_requirements = None,
            call_retry_count = 0\<rparr>,
           regenerate_recipe peanut_noodles
             (generate_feedback
                (projr (validate_recipe generic_fallback_lookup (model_dump peanut_noodles)
                          bob_context bob_constraints))),
           \<lparr>call_meal_type = ''lunch'', call_additional_requirements = None,
            call_retry_count = 1\<rparr>])
   \<and> violate_then_comply 1
         (regenerate_recipe peanut_noodles
            (generate_feedback
               (projr (validate_recipe generic_fallback_lookup (model_dump peanut_noodles)
                         bob_context bob_constraints))))
       = Inr tofu_bowl
   \<and> map_sum id is_compliant
         (validate_recipe generic_fallback_lookup (model_dump tofu_bowl) bob_context
            bob_constraints) = Inr True"
  by (simp add: run_eval)

section \<open>The weekly plan\<close>












end
